theory Spec2Isabelle
  imports Main "HOL-Library.Char_ord" "HOL-Library.List_Lexorder" "HOL-Library.Product_Lexorder"
begin

chapter \<open>The appointment sniper: scraping, normalising and alerting\<close>

text \<open>
  A model of \<open>browse.py\<close> (the traversal of the booking site, the extraction of the dates
  and times of a page, the normalisation into a snapshot) and of \<open>alert.py\<close> (the match
  of a snapshot against the time window and the blacklist, the summary and the
  notifications), with the properties the specification states of them. The definitions
  come first; the properties follow.
\<close>


section \<open>Strings\<close>

text \<open>
  Python strings are modelled as \<open>string\<close>; a character is a code point below 256.
  \<open>is_space\<close> is \<open>str.isspace\<close> on one such character, which is also what the
  regular expression class \<open>\s\<close> matches on text patterns: TAB, LF, VT, FF, CR, the four
  separators 0x1C..0x1F, the blank, NEL (0x85) and the no-break space (0xA0).
\<close>

definition is_space :: "char \<Rightarrow> bool" where
  "is_space c =
     (let n = (of_char c :: nat)
      in (9 \<le> n \<and> n \<le> 13) \<or> (28 \<le> n \<and> n \<le> 32) \<or> n = 133 \<or> n = 160)"

text \<open>\<open>str.strip()\<close> with no argument.\<close>

definition strip :: "string \<Rightarrow> string" where
  "strip s = rev (dropWhile is_space (rev (dropWhile is_space s)))"

definition is_digit :: "char \<Rightarrow> bool" where
  "is_digit c = (48 \<le> (of_char c :: nat) \<and> (of_char c :: nat) \<le> 57)"

definition digit_val :: "char \<Rightarrow> nat" where
  "digit_val c = of_char c - 48"

definition digit_char :: "nat \<Rightarrow> char" where
  "digit_char n = ''0123456789'' ! (n mod 10)"

text \<open>\<open>str.lower()\<close> on the letters A..Z (all that the month and AM/PM names need).\<close>

definition lower_char :: "char \<Rightarrow> char" where
  "lower_char c =
     (let n = (of_char c :: nat) in if 65 \<le> n \<and> n \<le> 90 then char_of (n + 32) else c)"

text \<open>Two and four digit zero-padded decimal, as \<open>%H\<close>, \<open>%M\<close>, \<open>%m\<close>, \<open>%d\<close> and \<open>%Y\<close> print.\<close>

definition pad2 :: "nat \<Rightarrow> string" where
  "pad2 n = [digit_char (n div 10), digit_char n]"

definition pad4 :: "nat \<Rightarrow> string" where
  "pad4 n = [digit_char (n div 1000), digit_char (n div 100), digit_char (n div 10), digit_char n]"

text \<open>\<open>str(n)\<close> for a natural number.\<close>

fun show_nat :: "nat \<Rightarrow> string" where
  "show_nat n = (if n < 10 then [digit_char n] else show_nat (n div 10) @ [digit_char n])"

declare show_nat.simps [simp del]

text \<open>\<open>sep.join(xs)\<close>.\<close>

fun join :: "string \<Rightarrow> string list \<Rightarrow> string" where
  "join sep [] = []"
| "join sep [x] = x"
| "join sep (x # y # ys) = x @ sep @ join sep (y # ys)"

text \<open>\<open>s.replace(c, t)\<close> for a one-character pattern \<open>c\<close>.\<close>

definition replace_char :: "char \<Rightarrow> string \<Rightarrow> string \<Rightarrow> string" where
  "replace_char c t s = concat (map (\<lambda>x. if x = c then t else [x]) s)"


section \<open>Dates and \<open>datetime.strptime\<close>\<close>

text \<open>
  The program only builds \<open>datetime\<close> values at midnight (formats without a time of day)
  and compares them, so a \<open>datetime\<close> is its (year, month, day), ordered lexicographically as
  Python orders them.
\<close>

type_synonym datetime = "nat \<times> nat \<times> nat"

definition is_leap :: "nat \<Rightarrow> bool" where
  "is_leap y = (y mod 4 = 0 \<and> (y mod 100 \<noteq> 0 \<or> y mod 400 = 0))"

definition days_in_month :: "nat \<Rightarrow> nat \<Rightarrow> nat" where
  "days_in_month y m =
     (if m = 2 then (if is_leap y then 29 else 28)
      else if m = 4 \<or> m = 6 \<or> m = 9 \<or> m = 11 then 30 else 31)"

text \<open>The constructor \<open>datetime(y, m, d)\<close>: \<open>None\<close> is its \<open>ValueError\<close>.\<close>

definition mk_datetime :: "nat \<Rightarrow> nat \<Rightarrow> nat \<Rightarrow> datetime option" where
  "mk_datetime y m d =
     (if 1 \<le> y \<and> y \<le> 9999 \<and> 1 \<le> m \<and> m \<le> 12 \<and> 1 \<le> d \<and> d \<le> days_in_month y m
      then Some (y, m, d) else None)"

text \<open>
  \<open>strptime\<close> compiles the format into a regular expression, matches it at the start of
  the text (\<open>re.match\<close>) and rejects text left over after the match. A parser here
  returns, in the order the backtracking matcher tries them, every way to match a prefix:
  the value read and the rest of the text. The first complete way is the match.
\<close>

type_synonym 'a parser = "string \<Rightarrow> ('a \<times> string) list"

definition then_p :: "'a parser \<Rightarrow> ('a \<Rightarrow> 'b parser) \<Rightarrow> 'b parser" where
  "then_p p f s = concat (map (\<lambda>(a, r). f a r) (p s))"

definition return_p :: "'a \<Rightarrow> 'a parser" where
  "return_p a s = [(a, s)]"

definition alt_p :: "'a parser list \<Rightarrow> 'a parser" where
  "alt_p ps s = concat (map (\<lambda>p. p s) ps)"

text \<open>A literal character of the format.\<close>

definition lit :: "char \<Rightarrow> unit parser" where
  "lit c s = (case s of x # r \<Rightarrow> if x = c then [((), r)] else [] | [] \<Rightarrow> [])"

text \<open>One digit in the range \<open>lo..hi\<close>, as the class \<open>[lo-hi]\<close>.\<close>

definition dig :: "nat \<Rightarrow> nat \<Rightarrow> nat parser" where
  "dig lo hi s =
     (case s of
        x # r \<Rightarrow> if is_digit x \<and> lo \<le> digit_val x \<and> digit_val x \<le> hi then [(digit_val x, r)] else []
      | [] \<Rightarrow> [])"

text \<open>Two digits, the first in \<open>a..b\<close> and the second in \<open>c..d\<close>, read as a number.\<close>

definition dig2 :: "nat \<Rightarrow> nat \<Rightarrow> nat \<Rightarrow> nat \<Rightarrow> nat parser" where
  "dig2 a b c d = then_p (dig a b) (\<lambda>x. then_p (dig c d) (\<lambda>y. return_p (10 * x + y)))"

text \<open>\<open>\s+\<close>: one or more blanks, the longest run first.\<close>

definition spaces1 :: "unit parser" where
  "spaces1 s =
     (let n = length (takeWhile is_space s)
      in map (\<lambda>k. ((), drop k s)) (rev [1..<Suc n]))"

text \<open>A fixed word, compared without regard to case (the expression is compiled with
  \<open>re.IGNORECASE\<close>).\<close>

definition word_ci :: "string \<Rightarrow> 'a \<Rightarrow> 'a parser" where
  "word_ci w a s =
     (if length w \<le> length s \<and> map lower_char (take (length w) s) = w
      then [(a, drop (length w) s)] else [])"

text \<open>The directives, with the expressions \<open>_strptime.TimeRE\<close> gives them.\<close>

definition re_Y :: "nat parser" where
  \<comment> \<open>\<open>%Y\<close>: \<open>\d\d\d\d\<close>\<close>
  "re_Y = then_p (dig 0 9) (\<lambda>a. then_p (dig 0 9) (\<lambda>b. then_p (dig 0 9) (\<lambda>c.
          then_p (dig 0 9) (\<lambda>d. return_p (1000 * a + 100 * b + 10 * c + d)))))"

definition re_m :: "nat parser" where
  \<comment> \<open>\<open>%m\<close> and \<open>%I\<close>: \<open>1[0-2]|0[1-9]|[1-9]\<close>\<close>
  "re_m = alt_p [dig2 1 1 0 2, dig2 0 0 1 9, dig 1 9]"

definition re_d :: "nat parser" where
  \<comment> \<open>\<open>%d\<close>: \<open>3[0-1]|[1-2]\d|0[1-9]|[1-9]| [1-9]\<close>\<close>
  "re_d = alt_p [dig2 3 3 0 1, dig2 1 2 0 9, dig2 0 0 1 9, dig 1 9,
                 then_p (lit CHR '' '') (\<lambda>_. dig 1 9)]"

definition re_M :: "nat parser" where
  \<comment> \<open>\<open>%M\<close>: \<open>[0-5]\d|\d\<close>\<close>
  "re_M = alt_p [dig2 0 5 0 9, dig 0 9]"

definition re_S :: "nat parser" where
  \<comment> \<open>\<open>%S\<close>: \<open>6[0-1]|[0-5]\d|\d\<close>\<close>
  "re_S = alt_p [dig2 6 6 0 1, dig2 0 5 0 9, dig 0 9]"

definition re_b :: "nat parser" where
  \<comment> \<open>\<open>%b\<close>: the abbreviated month names of the C locale\<close>
  "re_b = alt_p [word_ci ''jan'' 1, word_ci ''feb'' 2, word_ci ''mar'' 3, word_ci ''apr'' 4,
                 word_ci ''may'' 5, word_ci ''jun'' 6, word_ci ''jul'' 7, word_ci ''aug'' 8,
                 word_ci ''sep'' 9, word_ci ''oct'' 10, word_ci ''nov'' 11, word_ci ''dec'' 12]"

definition re_p :: "bool parser" where
  \<comment> \<open>\<open>%p\<close>: \<open>am|pm\<close>; the value says whether it is PM\<close>
  "re_p = alt_p [word_ci ''am'' False, word_ci ''pm'' True]"

text \<open>The match found, or \<open>None\<close> for either \<open>ValueError\<close> of \<open>strptime\<close>: the text
  does not match the format, or unconverted data remains after the match.\<close>

definition first_match :: "('a \<times> string) list \<Rightarrow> 'a option" where
  "first_match rs = (case rs of [] \<Rightarrow> None | (a, r) # _ \<Rightarrow> if r = [] then Some a else None)"

text \<open>\<open>datetime.strptime(s, '%Y-%m-%d')\<close>.\<close>

definition strptime_ymd :: "string \<Rightarrow> datetime option" where
  "strptime_ymd s =
     Option.bind
       (first_match
          (then_p re_Y (\<lambda>y. then_p (lit CHR ''-'') (\<lambda>_. then_p re_m (\<lambda>m.
           then_p (lit CHR ''-'') (\<lambda>_. then_p re_d (\<lambda>d. return_p (y, m, d)))))) s))
       (\<lambda>(y, m, d). mk_datetime y m d)"

text \<open>\<open>datetime.strptime(s, '%b %d, %Y')\<close>; the blank of the format is \<open>\s+\<close>.\<close>

definition strptime_bdY :: "string \<Rightarrow> datetime option" where
  "strptime_bdY s =
     Option.bind
       (first_match
          (then_p re_b (\<lambda>m. then_p spaces1 (\<lambda>_. then_p re_d (\<lambda>d.
           then_p (lit CHR '','') (\<lambda>_. then_p spaces1 (\<lambda>_. then_p re_Y (\<lambda>y.
           return_p (y, m, d))))))) s))
       (\<lambda>(y, m, d). mk_datetime y m d)"

text \<open>\<open>d.strftime('%Y-%m-%d')\<close>, the year in four digits.\<close>

definition strftime_ymd :: "datetime \<Rightarrow> string" where
  "strftime_ymd dt = (case dt of (y, m, d) \<Rightarrow> pad4 y @ ''-'' @ pad2 m @ ''-'' @ pad2 d)"

text \<open>
  \<open>datetime.strptime(s, '%m/%d/%Y %I:%M:%S %p').strftime('%H:%M')\<close>: the hour of the
  12-hour clock is turned into the hour of the day (12 AM is 0, 12 PM is 12), and the
  constructor rejects an invalid date and a second of 60 or 61.
\<close>

definition hour24 :: "nat \<Rightarrow> bool \<Rightarrow> nat" where
  "hour24 h pm = (if pm then (if h \<noteq> 12 then h + 12 else h) else (if h = 12 then 0 else h))"

definition strptime_hhmm :: "string \<Rightarrow> string option" where
  "strptime_hhmm s =
     Option.bind
       (first_match
          (then_p re_m (\<lambda>mo. then_p (lit CHR ''/'') (\<lambda>_. then_p re_d (\<lambda>d.
           then_p (lit CHR ''/'') (\<lambda>_. then_p re_Y (\<lambda>y. then_p spaces1 (\<lambda>_.
           then_p re_m (\<lambda>h. then_p (lit CHR '':'') (\<lambda>_. then_p re_M (\<lambda>mi.
           then_p (lit CHR '':'') (\<lambda>_. then_p re_S (\<lambda>sec. then_p spaces1 (\<lambda>_.
           then_p re_p (\<lambda>pm. return_p (y, mo, d, h, mi, sec, pm)))))))))))))) s))
       (\<lambda>(y, mo, d, h, mi, sec, pm).
          if mk_datetime y mo d \<noteq> None \<and> sec \<le> 59
          then Some (pad2 (hour24 h pm) @ '':'' @ pad2 mi) else None)"


text \<open>\<open>d.strftime('%A')\<close>: the day of the week, from the proleptic Gregorian ordinal.\<close>

definition days_before_year :: "nat \<Rightarrow> nat" where
  "days_before_year y = (y - 1) * 365 + (y - 1) div 4 - (y - 1) div 100 + (y - 1) div 400"

definition days_before_month :: "nat \<Rightarrow> nat \<Rightarrow> nat" where
  \<comment> \<open>the table \<open>_DAYS_BEFORE_MONTH\<close> of \<open>datetime\<close>, and the leap day\<close>
  "days_before_month y m =
     (if m = 1 then 0 else if m = 2 then 31 else if m = 3 then 59 else if m = 4 then 90
      else if m = 5 then 120 else if m = 6 then 151 else if m = 7 then 181
      else if m = 8 then 212 else if m = 9 then 243 else if m = 10 then 273
      else if m = 11 then 304 else 334)
     + (if 2 < m \<and> is_leap y then 1 else 0)"

definition toordinal :: "datetime \<Rightarrow> nat" where
  "toordinal dt = (case dt of (y, m, d) \<Rightarrow> days_before_year y + days_before_month y m + d)"

definition strftime_A :: "datetime \<Rightarrow> string" where
  "strftime_A dt =
     [''Monday'', ''Tuesday'', ''Wednesday'', ''Thursday'', ''Friday'', ''Saturday'', ''Sunday'']
       ! ((toordinal dt + 6) mod 7)"


section \<open>The files and the outside world\<close>

text \<open>
  What a run reads: \<open>rmv_url.txt\<close> (its text, \<open>None\<close> when it cannot be read),
  \<open>blacklist.txt\<close> and \<open>whitelist.txt\<close> (their lines, \<open>None\<close> when the file does not
  exist) and \<open>time_window.json\<close> (the members of its object, \<open>None\<close> when the file cannot
  be opened or does not hold a JSON object). A JSON value is a string or something else.
\<close>

datatype json = JStr string | JOther

record files =
  rmv_url_txt :: "string option"
  blacklist_txt :: "string list option"
  whitelist_txt :: "string list option"
  time_window_json :: "(string \<times> json) list option"

text \<open>
  What a run does to the outside, in order: a line printed (the text given to \<open>print\<close>;
  the text of an exception, which the library words, is left out of the line), text printed
  with \<open>end=""\<close>, a process started with \<open>subprocess.run\<close> (its argument vector),
  \<open>page.goto\<close>, a click on the button of a location, \<open>save_list\<close> (the file and the
  sorted items) and \<open>json.dump\<close> of a snapshot into a file.
\<close>

type_synonym snapshot = "(string \<times> (string \<times> string list) list) list"

datatype event =
    Print string
  | Write string
  | Run "string list"
  | Goto string
  | Click string
  | Save string "string list"
  | Dump string snapshot


section \<open>\<open>alert.py\<close>\<close>

text \<open>\<open>load_list\<close> (the same function in \<open>alert.py\<close>, \<open>browse.py\<close> and \<open>analyze.py\<close>).\<close>

definition load_list :: "string list option \<Rightarrow> string set" where
  "load_list f =
     (case f of
        None \<Rightarrow> {}
      | Some lines \<Rightarrow> set (map strip (filter (\<lambda>line. strip line \<noteq> []) lines)))"

text \<open>
  \<open>load_time_window\<close>: both dates of the file, or, on any exception (no file, no object, a
  key missing, a value that is not a string or not a date), a line of diagnostics and the
  default window.
\<close>

definition window_member :: "(string \<times> json) list \<Rightarrow> string \<Rightarrow> datetime option" where
  \<comment> \<open>\<open>datetime.strptime(window[key], '%Y-%m-%d')\<close>; \<open>None\<close> when it raises\<close>
  "window_member window key =
     (case map_of window key of Some (JStr s) \<Rightarrow> strptime_ymd s | _ \<Rightarrow> None)"

definition load_time_window :: "files \<Rightarrow> (datetime \<times> datetime) \<times> event list" where
  "load_time_window fs =
     (case Option.bind (time_window_json fs) (\<lambda>window.
             Option.bind (window_member window ''start_date'') (\<lambda>start_date.
             Option.bind (window_member window ''end_date'') (\<lambda>end_date.
             Some (start_date, end_date)))) of
        Some w \<Rightarrow> (w, [])
      | None \<Rightarrow> (((2025, 3, 24), (2025, 4, 24)), [Print ''Error loading time window: '']))"

text \<open>\<open>is_alert_date\<close>: the answer and what the call printed.\<close>

definition is_alert_date :: "files \<Rightarrow> string \<Rightarrow> bool \<times> event list" where
  "is_alert_date fs date_str =
     (case strptime_ymd date_str of
        None \<Rightarrow> (False, [])
      | Some date \<Rightarrow>
          (case load_time_window fs of
             ((start_date, end_date), out) \<Rightarrow> (start_date \<le> date \<and> date < end_date, out)))"

text \<open>\<open>load_url\<close> of \<open>alert.py\<close>: \<open>None\<close> is \<open>sys.exit(1)\<close> after the diagnostic.\<close>

definition load_url :: "files \<Rightarrow> string option" where
  "load_url fs = map_option strip (rmv_url_txt fs)"

text \<open>
  A snapshot (the type \<open>snapshot\<close> above) is the dictionary \<open>json.load\<close> returns,
  as its items in order: location to (date to times).
\<close>

record alert =
  alert_location :: string
  alert_date :: string
  alert_times :: "string list"
  alert_url :: string

text \<open>The state of the loop of lines 64 to 86 of \<open>alert.py\<close>.\<close>

record scan =
  alerts :: "alert list"
  match_found :: bool
  printed :: "event list"

fun check_dates :: "files \<Rightarrow> string \<Rightarrow> string \<Rightarrow> (string \<times> string list) list \<Rightarrow> scan \<Rightarrow> scan" where
  "check_dates fs url location [] st = st"
| "check_dates fs url location ((date, time_list) # rest) st =
     (case is_alert_date fs date of
        (ok, out) \<Rightarrow>
          check_dates fs url location rest
            (if ok
             then \<lparr>alerts = alerts st @
                      [\<lparr>alert_location = location, alert_date = date,
                        alert_times = sort time_list, alert_url = url\<rparr>],
                   match_found = (match_found st \<or> time_list \<noteq> []),
                   printed = printed st @ out\<rparr>
             else st\<lparr>printed := printed st @ out\<rparr>))"

fun check_locations :: "files \<Rightarrow> string set \<Rightarrow> string \<Rightarrow> snapshot \<Rightarrow> scan \<Rightarrow> scan" where
  "check_locations fs blacklist url [] st = st"
| "check_locations fs blacklist url ((location, dates) # rest) st =
     (if location \<in> blacklist then check_locations fs blacklist url rest st
      else check_locations fs blacklist url rest (check_dates fs url location dates st))"

text \<open>The six lines printed for an alert (lines 95 to 101).\<close>

definition alert_lines :: "alert \<Rightarrow> datetime \<Rightarrow> event list" where
  "alert_lines a dt =
     [Print ([CHR 0x0A] @ alert_location a @ '' on '' @ strftime_A dt @ '', '' @ alert_date a
             @ '' at '' @ join '', '' (alert_times a)),
      Print (''https://www.google.com/maps/search/''
             @ replace_char CHR '' '' ''+'' (alert_location a) @ ''/@42.18,-72.51,9z/''),
      Print ''To blacklist this location:'',
      Print (''  echo '' @ [CHR 0x27]
             @ replace_char (CHR 0x27) [CHR 0x27, CHR 0x5C, CHR 0x27, CHR 0x27] (alert_location a)
             @ [CHR 0x27] @ '' >> blacklist.txt''),
      Print (''To make the time window close before '' @ alert_date a @ '':''),
      Print (''  jq --arg date '' @ [CHR 0x27] @ alert_date a @ [CHR 0x27] @ '' '' @ [CHR 0x27]
             @ ''.end_date = $date'' @ [CHR 0x27]
             @ '' time_window.json > tmp.json && mv tmp.json time_window.json'')]"

text \<open>
  The loop of lines 92 to 101, with \<open>locations_printed\<close>. The second component is
  \<open>False\<close> when \<open>strptime\<close> of line 95 raises, which ends the run there.
\<close>

fun print_alerts :: "alert list \<Rightarrow> string list \<Rightarrow> event list \<times> bool" where
  "print_alerts [] locations_printed = ([], True)"
| "print_alerts (a # rest) locations_printed =
     (if alert_location a \<notin> set locations_printed then
        (case strptime_ymd (alert_date a) of
           None \<Rightarrow> ([], False)
         | Some dt \<Rightarrow>
             (case print_alerts rest (locations_printed @ [alert_location a]) of
                (ev, ok) \<Rightarrow> (alert_lines a dt @ ev, ok)))
      else print_alerts rest locations_printed)"

text \<open>
  \<open>subprocess.run(['firefox', arg], check=True, ...)\<close> inside its two handlers. The world
  says how a launch ends.
\<close>

datatype launch = Launched | CalledProcessError | FileNotFoundError

definition run_firefox :: "(string \<Rightarrow> launch) \<Rightarrow> string \<Rightarrow> event list" where
  "run_firefox firefox arg =
     Run [''firefox'', arg] #
     (case firefox arg of
        Launched \<Rightarrow> []
      | CalledProcessError \<Rightarrow> [Print ''Error launching Firefox: '']
      | FileNotFoundError \<Rightarrow> [Print ''Firefox not found in PATH''])"

text \<open>The loop of lines 115 to 124, with \<open>unique_locations\<close>; it returns the final
  \<open>unique_locations\<close> and the events.\<close>

fun notify_locations :: "(string \<Rightarrow> launch) \<Rightarrow> alert list \<Rightarrow> string list \<Rightarrow> string list \<times> event list" where
  "notify_locations firefox [] unique_locations = (unique_locations, [])"
| "notify_locations firefox (a # rest) unique_locations =
     (if alert_location a \<notin> set unique_locations then
        (case notify_locations firefox rest (unique_locations @ [alert_location a]) of
           (ul, ev) \<Rightarrow>
             (ul, run_firefox firefox
                    (''https://vas.im/firefox-alert/?alertText='' @ alert_location a) @ ev))
      else notify_locations firefox rest unique_locations)"

text \<open>
  A run of \<open>analyze_appointments\<close>: the exit status of the process (0 when the function
  returns, 1 after \<open>sys.exit(1)\<close> or an exception nobody handles), everything printed and
  launched, in order, and the final values of \<open>alerts\<close>, \<open>match_found\<close> and
  \<open>unique_locations\<close>.
\<close>

record alert_run =
  run_exit :: nat
  run_events :: "event list"
  run_alerts :: "alert list"
  run_match_found :: bool
  run_notified :: "string list"

definition analyze_appointments ::
  "files \<Rightarrow> (string \<Rightarrow> launch) \<Rightarrow> snapshot option \<Rightarrow> alert_run" where
  "analyze_appointments fs firefox data_file =
     (case load_url fs of
        None \<Rightarrow>
          \<lparr>run_exit = 1, run_events = [Print ''Error loading URL: ''], run_alerts = [],
           run_match_found = False, run_notified = []\<rparr>
      | Some url \<Rightarrow>
          (let blacklist = load_list (blacklist_txt fs) in
           case data_file of
             None \<Rightarrow>
               \<lparr>run_exit = 0, run_events = [Print ''Error loading data file: ''], run_alerts = [],
                run_match_found = False, run_notified = []\<rparr>
           | Some data \<Rightarrow>
               (let st = check_locations fs blacklist url data
                           \<lparr>alerts = [], match_found = False, printed = []\<rparr>;
                    (summary, ok) =
                      (if alerts st \<noteq> []
                       then (case print_alerts (alerts st) [] of
                               (ev, ok) \<Rightarrow>
                                 (Print ([CHR 0x0A] @ ''=== ALERT: Available Appointments Found ==='')
                                    # ev, ok))
                       else ([], True))
                in if \<not> ok then
                     \<lparr>run_exit = 1, run_events = printed st @ summary, run_alerts = alerts st,
                      run_match_found = match_found st, run_notified = []\<rparr>
                   else if match_found st then
                     (case notify_locations firefox (alerts st) [] of
                        (ul, ev) \<Rightarrow>
                          \<lparr>run_exit = 0,
                           run_events = printed st @ summary
                             @ [Print ([CHR 0x0A] @ ''Matching appointments found! Launching Firefox...'')]
                             @ run_firefox firefox url @ ev,
                           run_alerts = alerts st, run_match_found = True, run_notified = ul\<rparr>)
                   else
                     \<lparr>run_exit = 0, run_events = printed st @ summary, run_alerts = alerts st,
                      run_match_found = False, run_notified = []\<rparr>)))"


subsection \<open>The texts that \<open>strptime\<close> reads as a date\<close>

text \<open>
  The form of a text that the regular expression of \<open>'%Y-%m-%d'\<close> can match in full: four
  digits, a hyphen, a month of one or two digits, a hyphen, and a day of one or two digits or
  of a blank and a digit. The form is wider than \<open>YYYY-MM-DD\<close>: neither the month nor the
  day has to be padded. (A text is a list of 8-bit characters, of which \<open>0\<close> to \<open>9\<close> are the
  only decimal digits.)
\<close>






subsection \<open>What \<open>analyze_appointments\<close> is expected to compute\<close>

text \<open>
  The alert records, said directly: for every location of the snapshot that is not in the
  blacklist, in order, one record for each of its dates that \<open>is_alert_date\<close> accepts.
\<close>

definition mk_alert :: "string \<Rightarrow> string \<Rightarrow> string \<times> string list \<Rightarrow> alert" where
  "mk_alert url location =
     (\<lambda>(date, time_list).
        \<lparr>alert_location = location, alert_date = date, alert_times = sort time_list,
         alert_url = url\<rparr>)"

definition in_window :: "files \<Rightarrow> string \<times> string list \<Rightarrow> bool" where
  "in_window fs = (\<lambda>(date, time_list). fst (is_alert_date fs date))"

definition expected_alerts :: "files \<Rightarrow> string set \<Rightarrow> string \<Rightarrow> snapshot \<Rightarrow> alert list" where
  "expected_alerts fs blacklist url data =
     concat (map (\<lambda>(location, dates).
                    if location \<in> blacklist then []
                    else map (mk_alert url location) (filter (in_window fs) dates)) data)"

text \<open>What the window checks of the scan print (the diagnostic of a window that cannot be
  loaded, once for every date checked).\<close>

definition scan_prints :: "files \<Rightarrow> string set \<Rightarrow> snapshot \<Rightarrow> event list" where
  "scan_prints fs blacklist data =
     concat (map (\<lambda>(location, dates).
                    if location \<in> blacklist then []
                    else concat (map (\<lambda>d. snd (is_alert_date fs (fst d))) dates)) data)"

text \<open>The first record of every location, in the order of the records.\<close>

fun first_per_location :: "alert list \<Rightarrow> alert list" where
  "first_per_location [] = []"
| "first_per_location (a # rest) =
     a # first_per_location (filter (\<lambda>b. alert_location b \<noteq> alert_location a) rest)"

definition entry_lines :: "alert \<Rightarrow> event list" where
  "entry_lines a =
     (case strptime_ymd (alert_date a) of None \<Rightarrow> [] | Some dt \<Rightarrow> alert_lines a dt)"

definition summary :: "alert list \<Rightarrow> event list" where
  "summary as =
     (if as = [] then []
      else Print ([CHR 0x0A] @ ''=== ALERT: Available Appointments Found ==='')
             # concat (map entry_lines (first_per_location as)))"

definition notification :: "(string \<Rightarrow> launch) \<Rightarrow> alert \<Rightarrow> event list" where
  "notification firefox a =
     run_firefox firefox (''https://vas.im/firefox-alert/?alertText='' @ alert_location a)"

definition notifications :: "(string \<Rightarrow> launch) \<Rightarrow> string \<Rightarrow> bool \<Rightarrow> alert list \<Rightarrow> event list" where
  "notifications firefox url found as =
     (if found
      then [Print ([CHR 0x0A] @ ''Matching appointments found! Launching Firefox...'')]
             @ run_firefox firefox url
             @ concat (map (notification firefox) (first_per_location as))
      else [])"

fun is_run :: "event \<Rightarrow> bool" where
  "is_run (Run argv) = True"
| "is_run e = False"



section \<open>\<open>browse.py\<close>\<close>

text \<open>
  \<open>load_list\<close>, \<open>is_alert_date\<close> and \<open>load_time_window\<close> of \<open>browse.py\<close> are, line for
  line, the functions of \<open>alert.py\<close> modelled above.
\<close>

subsection \<open>Exceptions and what a call prints\<close>

text \<open>
  The exceptions that matter here: \<open>TypeError\<close> (a \<open>None\<close> where the library wants text)
  and \<open>UnboundLocalError\<close> (a local variable read before any assignment). A call returns
  its result or the exception that leaves it, and the events up to that point.
\<close>

datatype exn = TypeError | UnboundLocalError

type_synonym 'a outcome = "(exn + 'a) \<times> event list"

definition returns :: "'a \<Rightarrow> 'a outcome" where
  "returns a = (Inr a, [])"

definition raises :: "exn \<Rightarrow> 'a outcome" where
  "raises e = (Inl e, [])"

definition after :: "event list \<Rightarrow> 'a outcome \<Rightarrow> 'a outcome" where
  "after evs m = (fst m, evs @ snd m)"

definition bind_o :: "'a outcome \<Rightarrow> ('a \<Rightarrow> 'b outcome) \<Rightarrow> 'b outcome" where
  "bind_o m f = (case m of (Inl e, evs) \<Rightarrow> (Inl e, evs) | (Inr a, evs) \<Rightarrow> after evs (f a))"

subsection \<open>The page\<close>

text \<open>
  A rendered page, as the selectors of \<open>parse_date_time_group\<close> see it: the date columns
  (\<open>div.DateTimeGrouping-Column\<close>) with their \<open>aria-label\<close>, in each the time groups
  (\<open>div.DateTimeGrouping-Group\<close>) with the texts of \<open>.group-title\<close> and \<open>.group-number\<close>,
  in each the times (\<open>div.ServiceAppointmentDateTime\<close>) with their text and their
  \<open>data-datetime\<close>. \<open>get_attribute\<close> returns \<open>None\<close> for an attribute that is not there.
  The browser calls themselves are taken to return.
\<close>

record time_element =
  te_text :: string
  te_datetime :: "string option"

record group_element =
  ge_title :: string
  ge_number :: string
  ge_times :: "time_element list"

record column_element =
  ce_label :: "string option"
  ce_groups :: "group_element list"

record button_data =
  b_text :: string
  b_id :: "string option"
  b_class :: "string option"
  b_type :: "string option"
  b_disabled :: "string option"

record page_dom =
  dom_buttons :: "button_data list"
  dom_columns :: "column_element list"

text \<open>The raw records (the dictionaries the extraction builds).\<close>

record time_data =
  td_display :: string
  td_datetime :: "string option"

record group_data =
  gd_title :: string
  gd_available_count :: string
  gd_times :: "time_data list"

record date_data =
  dd_day_name :: string
  dd_full_date :: string
  dd_time_groups :: "group_data list"

record page_data =
  pd_buttons :: "button_data list"
  pd_dates :: "date_data list"

record location_data =
  ld_location :: string
  ld_pages :: "page_data list"

subsection \<open>The label of a date column\<close>

text \<open>
  \<open>re.search(r"<p>([A-Za-z]+)</p><p>([A-Za-z]+ \d+, \d{4})</p>", date_label)\<close>: the two
  groups of the leftmost match. Each run of letters or digits is followed by a character
  that is neither, so the greedy run is the only way to match.
\<close>

definition is_alpha :: "char \<Rightarrow> bool" where
  "is_alpha c =
     (let n = (of_char c :: nat) in (65 \<le> n \<and> n \<le> 90) \<or> (97 \<le> n \<and> n \<le> 122))"

definition strip_prefix :: "string \<Rightarrow> string \<Rightarrow> string option" where
  "strip_prefix p s = (if take (length p) s = p then Some (drop (length p) s) else None)"

definition label_at :: "string \<Rightarrow> (string \<times> string) option" where
  "label_at s =
     Option.bind (strip_prefix ''<p>'' s) (\<lambda>r1.
       let day = takeWhile is_alpha r1 in
       if day = [] then None else
       Option.bind (strip_prefix ''</p><p>'' (dropWhile is_alpha r1)) (\<lambda>r2.
         let month = takeWhile is_alpha r2 in
         if month = [] then None else
         Option.bind (strip_prefix '' '' (dropWhile is_alpha r2)) (\<lambda>r3.
           let day_no = takeWhile is_digit r3 in
           if day_no = [] then None else
           Option.bind (strip_prefix '', '' (dropWhile is_digit r3)) (\<lambda>r4.
             let year = take 4 r4 in
             if length year = 4 \<and> list_all is_digit year then
               Option.bind (strip_prefix ''</p>'' (drop 4 r4)) (\<lambda>r5.
                 Some (day, month @ '' '' @ day_no @ '', '' @ year))
             else None))))"

fun search_label :: "string \<Rightarrow> (string \<times> string) option" where
  "search_label [] = None"
| "search_label (c # cs) =
     (case label_at (c # cs) of Some groups \<Rightarrow> Some groups | None \<Rightarrow> search_label cs)"

subsection \<open>\<open>parse_date_time_group\<close>\<close>

text \<open>The two flags a column starts with (lines 74 and 75).\<close>

record column_flags =
  location_printed :: bool
  last_date :: "string option"

text \<open>The loop over the times of a group (lines 113 to 132): the \<open>times\<close> of
  \<open>group_data\<close>, the flags, what it prints.\<close>

fun read_times ::
  "string \<Rightarrow> string \<Rightarrow> string \<Rightarrow> time_element list \<Rightarrow> time_data list \<Rightarrow> column_flags
     \<Rightarrow> (time_data list \<times> column_flags) \<times> event list" where
  "read_times location day_name full_date [] acc fl = ((acc, fl), [])"
| "read_times location day_name full_date (time_element # rest) acc fl =
     (case read_times location day_name full_date rest
             (acc @ [\<lparr>td_display = te_text time_element,
                       td_datetime = te_datetime time_element\<rparr>])
             \<lparr>location_printed = True, last_date = Some full_date\<rparr> of
        (r, evs) \<Rightarrow>
          (r, (if \<not> location_printed fl then [Write (location @ '': '')] else [])
              @ (if last_date fl \<noteq> Some full_date
                 then [Write (day_name @ '', '' @ full_date @ '' - '')] else [])
              @ [Write ('' '' @ te_text time_element)] @ evs))"

text \<open>
  The loop over the time groups of a column (lines 92 to 132). \<open>group_data\<close> is a local
  variable of the whole function: \<open>None\<close> while nothing has been assigned to it. Every
  group assigns a new dictionary to it.
\<close>

fun read_groups ::
  "string \<Rightarrow> string \<Rightarrow> string \<Rightarrow> group_element list \<Rightarrow> group_data option \<Rightarrow> column_flags
     \<Rightarrow> (group_data option \<times> column_flags) \<times> event list" where
  "read_groups location day_name full_date [] group_data fl = ((group_data, fl), [])"
| "read_groups location day_name full_date (time_group # rest) group_data fl =
     (case read_times location day_name full_date (ge_times time_group) [] fl of
        ((time_list, fl'), evs) \<Rightarrow>
          (case read_groups location day_name full_date rest
                  (Some \<lparr>gd_title = ge_title time_group,
                         gd_available_count = ge_number time_group,
                         gd_times = time_list\<rparr>) fl' of
             (r, evs') \<Rightarrow> (r, evs @ evs')))"

text \<open>What the loop over the columns carries: \<open>dates\<close> and \<open>group_data\<close>.\<close>

record parse_state =
  ps_dates :: "date_data list"
  ps_group_data :: "group_data option"

text \<open>
  One column (lines 60 to 142). After the loop over its groups, line 134 appends
  \<open>group_data\<close>, whatever it holds, once to the \<open>time_groups\<close> of the date; read while
  unassigned it raises \<open>UnboundLocalError\<close>, which the handler of \<open>ValueError\<close> lets through.
\<close>

definition parse_column :: "files \<Rightarrow> string \<Rightarrow> column_element \<Rightarrow> parse_state \<Rightarrow> parse_state outcome" where
  "parse_column fs location date_column st =
     (case ce_label date_column of
        None \<Rightarrow> raises TypeError
      | Some date_label \<Rightarrow>
          (case search_label date_label of
             None \<Rightarrow> (Inr st, [Print (''Could not parse date from: '' @ date_label)])
           | Some (day_name, full_date) \<Rightarrow>
               (case strptime_bdY full_date of
                  None \<Rightarrow> returns st
                | Some date_obj \<Rightarrow>
                    (case is_alert_date fs (strftime_ymd date_obj) of
                       (True, evs) \<Rightarrow>
                         (case read_groups location day_name full_date (ce_groups date_column)
                                 (ps_group_data st)
                                 \<lparr>location_printed = False, last_date = None\<rparr> of
                            ((group_data, fl), evs') \<Rightarrow>
                              (case group_data of
                                 None \<Rightarrow> (Inl UnboundLocalError, evs @ evs')
                               | Some g \<Rightarrow>
                                   (Inr \<lparr>ps_dates = ps_dates st @
                                           [\<lparr>dd_day_name = day_name, dd_full_date = full_date,
                                             dd_time_groups = [g]\<rparr>],
                                         ps_group_data = Some g\<rparr>,
                                    evs @ evs' @ [Print []])))
                     | (False, evs) \<Rightarrow>
                         (Inr st,
                          evs @ [Print (''There were appointments outside the time window: ''
                                        @ full_date @ '' - '' @ full_date)])))))"

fun parse_columns :: "files \<Rightarrow> string \<Rightarrow> column_element list \<Rightarrow> parse_state \<Rightarrow> parse_state outcome" where
  "parse_columns fs location [] st = returns st"
| "parse_columns fs location (date_column # rest) st =
     bind_o (parse_column fs location date_column st) (parse_columns fs location rest)"

definition parse_date_time_group :: "files \<Rightarrow> string \<Rightarrow> page_dom \<Rightarrow> date_data list outcome" where
  "parse_date_time_group fs location page =
     bind_o (parse_columns fs location (dom_columns page) \<lparr>ps_dates = [], ps_group_data = None\<rparr>)
       (\<lambda>st. returns (ps_dates st))"

subsection \<open>\<open>get_page_data\<close>\<close>

text \<open>
  The three attempts (\<open>max_retries=3\<close>), counted down: every attempt appends the buttons
  again, an exception of \<open>parse_date_time_group\<close> is caught, and the last attempt returns
  the data without dates. The time stamp and the URL of the record are left out: nothing
  reads them.
\<close>

fun get_page_attempts ::
  "files \<Rightarrow> string \<Rightarrow> page_dom \<Rightarrow> nat \<Rightarrow> button_data list \<Rightarrow> page_data \<times> event list" where
  "get_page_attempts fs location page 0 buttons =
     (\<lparr>pd_buttons = buttons, pd_dates = []\<rparr>, [])"
| "get_page_attempts fs location page (Suc remaining) buttons =
     (case parse_date_time_group fs location page of
        (Inr dates, evs) \<Rightarrow> (\<lparr>pd_buttons = buttons @ dom_buttons page, pd_dates = dates\<rparr>, evs)
      | (Inl e, evs) \<Rightarrow>
          (if 0 < remaining then
             (case get_page_attempts fs location page remaining (buttons @ dom_buttons page) of
                (data, evs') \<Rightarrow>
                  (data, evs @ [Print (''Attempt '' @ show_nat (3 - remaining) @ '' failed: '')]
                           @ evs'))
           else
             (\<lparr>pd_buttons = buttons @ dom_buttons page, pd_dates = []\<rparr>,
              evs @ [Print ''Warning: Could not get page data after 3 attempts: ''])))"

definition get_page_data :: "files \<Rightarrow> string \<Rightarrow> page_dom \<Rightarrow> page_data \<times> event list" where
  "get_page_data fs location page = get_page_attempts fs location page 3 []"

subsection \<open>\<open>transform_data\<close>\<close>

text \<open>A dictionary as its items in insertion order: a new key goes last, a key that is
  there keeps its place.\<close>

fun dict_set :: "'k \<Rightarrow> 'v \<Rightarrow> ('k \<times> 'v) list \<Rightarrow> ('k \<times> 'v) list" where
  "dict_set k v [] = [(k, v)]"
| "dict_set k v ((k', v') # rest) =
     (if k' = k then (k, v) # rest else (k', v') # dict_set k v rest)"

text \<open>
  The loops of lines 220 to 229 append to the list of the date, here \<open>acc\<close>.
  \<open>strptime\<close> of \<open>None\<close> raises \<open>TypeError\<close>, which the handler of \<open>ValueError\<close> lets
  through.
\<close>

fun transform_times :: "time_data list \<Rightarrow> string list \<Rightarrow> string list outcome" where
  "transform_times [] acc = returns acc"
| "transform_times (time_data # rest) acc =
     (case td_datetime time_data of
        None \<Rightarrow> raises TypeError
      | Some s \<Rightarrow>
          (case strptime_hhmm s of
             Some time_str \<Rightarrow> transform_times rest (acc @ [time_str])
           | None \<Rightarrow>
               after [Print (''Warning: Could not parse time '' @ s @ '': '')]
                 (transform_times rest acc)))"

fun transform_groups :: "group_data list \<Rightarrow> string list \<Rightarrow> string list outcome" where
  "transform_groups [] acc = returns acc"
| "transform_groups (time_group # rest) acc =
     bind_o (transform_times (gd_times time_group) acc) (transform_groups rest)"

text \<open>The loop of lines 206 to 229 over the dates of a page; \<open>d\<close> is
  \<open>transformed[location]\<close>.\<close>

fun transform_dates :: "date_data list \<Rightarrow> (string \<times> string list) list \<Rightarrow> (string \<times> string list) list outcome" where
  "transform_dates [] d = returns d"
| "transform_dates (date_data # rest) d =
     (case strptime_bdY (dd_full_date date_data) of
        None \<Rightarrow>
          after [Print (''Warning: Could not parse date '' @ dd_full_date date_data @ '': '')]
            (transform_dates rest d)
      | Some date_obj \<Rightarrow>
          (let iso_date = strftime_ymd date_obj;
               acc = (case map_of d iso_date of None \<Rightarrow> [] | Some time_list \<Rightarrow> time_list)
           in bind_o (transform_groups (dd_time_groups date_data) acc)
                (\<lambda>time_list. transform_dates rest (dict_set iso_date time_list d))))"

fun transform_pages :: "page_data list \<Rightarrow> (string \<times> string list) list \<Rightarrow> (string \<times> string list) list outcome" where
  "transform_pages [] d = returns d"
| "transform_pages (page # rest) d =
     bind_o (transform_dates (pd_dates page) d) (transform_pages rest)"

fun transform_locations :: "(string \<times> location_data) list \<Rightarrow> snapshot \<Rightarrow> snapshot outcome" where
  "transform_locations [] transformed = returns transformed"
| "transform_locations ((location, location_data) # rest) transformed =
     bind_o (transform_pages (ld_pages location_data) [])
       (\<lambda>d. transform_locations rest (dict_set location d transformed))"

text \<open>\<open>transform_data\<close>, on the items of \<open>all_data['locations']\<close>.\<close>

definition transform_data :: "(string \<times> location_data) list \<Rightarrow> snapshot outcome" where
  "transform_data locations = transform_locations locations []"


subsection \<open>\<open>test_list_buttons\<close>\<close>

text \<open>
  The browser is outside the program; the run is told what it meets. For the location
  button of index \<open>i\<close>, fetched again at iteration \<open>i\<close>: the text of the button
  (\<open>None\<close> when the call raises), the pages rendered after the click, in order, whether
  every browser call of lines 306 to 343 returned (\<open>False\<close>: one of them raised, after the
  pages listed), whether the return to the selection page (lines 350 to 353) returned, and
  whether the recovery of the handler (lines 359 to 362) returned.
\<close>

record town =
  town_text :: "string option"
  town_pages :: "page_dom list"
  town_done :: bool
  town_return :: bool
  town_recover :: bool

text \<open>
  The world of a run of \<open>browse.py\<close>: the files, the argument of \<open>--blacklist\<close>, the
  locations the site lists (\<open>None\<close> when opening the site raises), the clock, the
  interpreter and the path of \<open>alert.py\<close>, and how the run of \<open>alert.py\<close> ends (its output,
  its error output and its return code, which is that of a process that exits by itself;
  \<open>None\<close> when \<open>subprocess.run\<close> raises).
\<close>

record world =
  w_files :: files
  w_blacklist_arg :: "string option"
  w_site :: "town list option"
  w_time :: nat
  w_python :: string
  w_alert_script :: string
  w_alert :: "(string \<times> string \<times> nat) option"

text \<open>\<open>get_page_data\<close> on every page of a location (lines 316 and 343).\<close>

fun collect_pages :: "files \<Rightarrow> string \<Rightarrow> page_dom list \<Rightarrow> page_data list \<times> event list" where
  "collect_pages fs location [] = ([], [])"
| "collect_pages fs location (page # rest) =
     (case get_page_data fs location page of
        (data, evs) \<Rightarrow>
          (case collect_pages fs location rest of
             (pages, evs') \<Rightarrow> (data # pages, evs @ evs')))"

text \<open>
  The handler of lines 355 to 365, entered after the events \<open>evs\<close> of the body: the
  diagnostic, one \<open>page.goto(url)\<close>, and, when that raises, the second diagnostic and
  \<open>break\<close>. The flag returned says whether the loop goes on.
\<close>

definition recover ::
  "string \<Rightarrow> nat \<Rightarrow> town \<Rightarrow> (string \<times> location_data) list \<Rightarrow> event list
     \<Rightarrow> ((string \<times> location_data) list \<times> bool) \<times> event list" where
  "recover url i t locations evs =
     (if town_recover t
      then ((locations, True),
            evs @ [Print (''Error processing location '' @ show_nat (i + 1) @ '': ''), Goto url])
      else ((locations, False),
            evs @ [Print (''Error processing location '' @ show_nat (i + 1) @ '': ''), Goto url,
                   Print ''Could not recover to main page'']))"

text \<open>One iteration of the loop over the locations (lines 283 to 365).\<close>

definition visit_town ::
  "files \<Rightarrow> string set \<Rightarrow> string \<Rightarrow> nat \<Rightarrow> nat \<Rightarrow> town \<Rightarrow> (string \<times> location_data) list
     \<Rightarrow> ((string \<times> location_data) list \<times> bool) \<times> event list" where
  "visit_town fs blacklist url i town_count t locations =
     (case town_text t of
        None \<Rightarrow> recover url i t locations []
      | Some text \<Rightarrow>
          (let location = strip text in
           if location \<in> blacklist then
             ((locations, True),
              [Print ('' Blacklist location '' @ show_nat (i + 1) @ ''/'' @ show_nat town_count
                      @ '': '' @ location)])
           else
             (case collect_pages fs location (town_pages t) of
                (pages, evs) \<Rightarrow>
                  (let body =
                         [Print (''Processing location '' @ show_nat (i + 1) @ ''/''
                                 @ show_nat town_count @ '': '' @ location),
                          Click location] @ evs;
                       stored = dict_set location
                                  \<lparr>ld_location = location, ld_pages = pages\<rparr> locations
                   in if \<not> town_done t then recover url i t locations body
                      else if town_return t then ((stored, True), body @ [Goto url])
                      else recover url i t stored (body @ [Goto url])))))"

fun visit_towns ::
  "files \<Rightarrow> string set \<Rightarrow> string \<Rightarrow> nat \<Rightarrow> nat \<Rightarrow> town list \<Rightarrow> (string \<times> location_data) list
     \<Rightarrow> (string \<times> location_data) list \<times> event list" where
  "visit_towns fs blacklist url i town_count [] locations = (locations, [])"
| "visit_towns fs blacklist url i town_count (t # rest) locations =
     (case visit_town fs blacklist url i town_count t locations of
        ((locations', go_on), evs) \<Rightarrow>
          (if go_on then
             (case visit_towns fs blacklist url (Suc i) town_count rest locations' of
                (final, evs') \<Rightarrow> (final, evs @ evs'))
           else (locations', evs)))"

text \<open>Lines 427 to 446: \<open>alert.py\<close> is run and what it wrote is printed.\<close>

definition run_alert :: "world \<Rightarrow> string \<Rightarrow> event list" where
  "run_alert w output_file =
     [Print (''Executing: '' @ w_alert_script w @ '' '' @ output_file),
      Run [w_python w, w_alert_script w, output_file]]
     @ (case w_alert w of
          None \<Rightarrow> [Print ''Error running alert analysis: '']
        | Some (stdout, stderr, returncode) \<Rightarrow>
            (if stdout \<noteq> [] then [Print ''\<newline>Alert output:'', Print stdout] else [])
            @ (if stderr \<noteq> [] then [Print ''\<newline>Alert errors:'', Print stderr] else [])
            @ (if returncode \<noteq> 0
               then [Print (''\<newline>Alert process exited with code '' @ show_nat returncode)]
               else []))"

text \<open>
  Lines 383 to 446, with the locations collected: the whitelist gains the new locations,
  the data are transformed and written to \<open>data/<time>.json\<close>, and \<open>alert.py\<close> is run
  on that file. The first component is the exit status of the process: 0 when
  \<open>test_list_buttons\<close> returns, 1 when an exception leaves it.
\<close>

definition write_and_alert ::
  "world \<Rightarrow> string set \<Rightarrow> string set \<Rightarrow> (string \<times> location_data) list \<Rightarrow> nat \<times> event list" where
  "write_and_alert w blacklist whitelist locations =
     (let new_locations = set (map fst locations) - blacklist - whitelist;
          noted =
            (if new_locations \<noteq> {}
             then [Save ''whitelist.txt'' (sorted_list_of_set (whitelist \<union> new_locations)),
                   Print ''\<newline>Added new locations to whitelist:'']
                  @ map (\<lambda>loc. Print (''  '' @ loc)) (sorted_list_of_set new_locations)
             else [])
      in case transform_data locations of
           (Inl e, evs) \<Rightarrow> (1, noted @ evs)
         | (Inr transformed_data, evs) \<Rightarrow>
             (let output_file = ''data/'' @ show_nat (w_time w) @ ''.json''
              in (0, noted @ evs @ [Dump output_file transformed_data] @ run_alert w output_file)))"

text \<open>
  Lines 369 to 446, after the browser is closed. With \<open>--blacklist\<close> (a text that is not
  empty) the run only moves the location between the lists and returns.
\<close>

definition finish_run ::
  "world \<Rightarrow> string set \<Rightarrow> string set \<Rightarrow> (string \<times> location_data) list \<Rightarrow> nat \<times> event list" where
  "finish_run w blacklist whitelist locations =
     (case w_blacklist_arg w of
        None \<Rightarrow> write_and_alert w blacklist whitelist locations
      | Some b \<Rightarrow>
          (if b = [] then write_and_alert w blacklist whitelist locations
           else if b \<notin> whitelist then
             (0, [Print (''\<newline>Error: '' @ [CHR 0x27] @ b @ [CHR 0x27]
                         @ '' is not in the whitelist'')])
           else
             (0, [Save ''whitelist.txt'' (sorted_list_of_set (whitelist - {b})),
                  Save ''blacklist.txt'' (sorted_list_of_set (insert b blacklist)),
                  Print (''\<newline>Moved '' @ [CHR 0x27] @ b @ [CHR 0x27]
                         @ '' from whitelist to blacklist'')])))"

text \<open>
  \<open>test_list_buttons\<close>: the exit status and the events of the run. \<open>load_url\<close> of
  \<open>browse.py\<close> prints the URL it loaded, or the diagnostic before \<open>sys.exit(1)\<close>.
\<close>

definition test_list_buttons :: "world \<Rightarrow> nat \<times> event list" where
  "test_list_buttons w =
     (let fs = w_files w;
          blacklist = load_list (blacklist_txt fs);
          whitelist = load_list (whitelist_txt fs)
      in case rmv_url_txt fs of
           None \<Rightarrow> (1, [Print ''Error loading URL: ''])
         | Some text \<Rightarrow>
             (let url = strip text;
                  opened = [Print (''Loaded URL: '' @ url), Goto url]
              in case w_site w of
                   None \<Rightarrow> (1, opened)
                 | Some towns \<Rightarrow>
                     (case visit_towns fs blacklist url 0 (length towns) towns [] of
                        (locations, evs) \<Rightarrow>
                          (case finish_run w blacklist whitelist locations of
                             (status, evs') \<Rightarrow> (status, opened @ evs @ evs')))))"


subsection \<open>What the extraction and the normalisation are expected to compute\<close>

text \<open>The record of a time group of the page, with all its times.\<close>

definition group_of :: "group_element \<Rightarrow> group_data" where
  "group_of g =
     \<lparr>gd_title = ge_title g, gd_available_count = ge_number g,
      gd_times = map (\<lambda>t. \<lparr>td_display = te_text t, td_datetime = te_datetime t\<rparr>) (ge_times g)\<rparr>"

text \<open>The day name and the date of a column whose label is read as a date of the window;
  \<open>None\<close> for every other column.\<close>

definition column_date :: "files \<Rightarrow> column_element \<Rightarrow> (string \<times> string) option" where
  "column_date fs c =
     Option.bind (ce_label c) (\<lambda>date_label.
     Option.bind (search_label date_label) (\<lambda>(day_name, full_date).
     Option.bind (strptime_bdY full_date) (\<lambda>date_obj.
       if fst (is_alert_date fs (strftime_ymd date_obj)) then Some (day_name, full_date)
       else None)))"

text \<open>The value of \<open>group_data\<close> after the columns \<open>cs\<close>, when it was \<open>gd\<close> before them: the
  last group of the last column of the window that has a group.\<close>

fun carried_group :: "files \<Rightarrow> column_element list \<Rightarrow> group_data option \<Rightarrow> group_data option" where
  "carried_group fs [] gd = gd"
| "carried_group fs (c # cs) gd =
     carried_group fs cs
       (if column_date fs c \<noteq> None \<and> ce_groups c \<noteq> []
        then Some (group_of (last (ce_groups c))) else gd)"

text \<open>The time of a slot in \<open>HH:MM\<close>, when it has one; the times of a group and of a
  date, in order.\<close>

definition slot_time :: "time_data \<Rightarrow> string option" where
  "slot_time t = Option.bind (td_datetime t) strptime_hhmm"

definition group_times :: "group_data \<Rightarrow> string list" where
  "group_times g = List.map_filter slot_time (gd_times g)"

definition date_times :: "date_data \<Rightarrow> string list" where
  "date_times dd = concat (map group_times (dd_time_groups dd))"

definition iso_date_of :: "date_data \<Rightarrow> string option" where
  "iso_date_of dd = map_option strftime_ymd (strptime_bdY (dd_full_date dd))"

text \<open>The date records that contribute to a date: those whose date is read as it, in the
  order of the pages.\<close>

definition contributions :: "date_data list \<Rightarrow> string \<Rightarrow> date_data list" where
  "contributions dds iso_date = filter (\<lambda>dd. iso_date_of dd = Some iso_date) dds"

definition location_dates :: "location_data \<Rightarrow> date_data list" where
  "location_dates location_data = concat (map pd_dates (ld_pages location_data))"

text \<open>Every slot of the raw records has a \<open>datetime\<close> text.\<close>

definition date_typed :: "date_data \<Rightarrow> bool" where
  "date_typed dd =
     list_all (\<lambda>g. list_all (\<lambda>t. td_datetime t \<noteq> None) (gd_times g)) (dd_time_groups dd)"

definition locations_typed :: "(string \<times> location_data) list \<Rightarrow> bool" where
  "locations_typed locations =
     list_all (\<lambda>l. list_all date_typed (location_dates (snd l))) locations"

text \<open>Processing the location raises: the text of the button cannot be read, or the
  location is not excluded and a browser call of the visit or of the return raises.\<close>

definition town_raises :: "string set \<Rightarrow> town \<Rightarrow> bool" where
  "town_raises blacklist t =
     (case town_text t of
        None \<Rightarrow> True
      | Some text \<Rightarrow> strip text \<notin> blacklist \<and> (\<not> town_done t \<or> \<not> town_return t))"

text \<open>What the body of the loop does for a location before an exception leaves it or it
  ends: nothing when the text of the button cannot be read, else the line of progress, the
  click, the pages, and the return to the selection page when the visit got that far.\<close>

definition town_body :: "files \<Rightarrow> string \<Rightarrow> nat \<Rightarrow> nat \<Rightarrow> town \<Rightarrow> event list" where
  "town_body fs url i town_count t =
     (case town_text t of
        None \<Rightarrow> []
      | Some text \<Rightarrow>
          [Print (''Processing location '' @ show_nat (i + 1) @ ''/'' @ show_nat town_count
                  @ '': '' @ strip text),
           Click (strip text)]
          @ snd (collect_pages fs (strip text) (town_pages t))
          @ (if town_done t then [Goto url] else []))"

text \<open>The locations whose iteration the loop reaches: all of them up to the first whose
  processing raises and whose recovery raises too, that one included.\<close>

fun reached :: "string set \<Rightarrow> town list \<Rightarrow> town list" where
  "reached blacklist [] = []"
| "reached blacklist (t # rest) =
     t # (if town_raises blacklist t \<and> \<not> town_recover t then [] else reached blacklist rest)"


subsection \<open>Example inputs\<close>

definition files_default :: files where
  \<comment> \<open>a URL file and nothing else: the window is the default one, nothing is excluded\<close>
  "files_default =
     \<lparr>rmv_url_txt = Some ''https://rmv.example/'', blacklist_txt = None, whitelist_txt = None,
      time_window_json = None\<rparr>"

definition files_window :: files where
  \<comment> \<open>the window of the specification's example, written in \<open>time_window.json\<close>\<close>
  "files_window =
     files_default\<lparr>time_window_json :=
       Some [(''start_date'', JStr ''2025-03-24''), (''end_date'', JStr ''2025-04-24'')]\<rparr>"

definition files_boston_excluded :: files where
  "files_boston_excluded = files_window\<lparr>blacklist_txt := Some [''Boston\<newline>'']\<rparr>"

definition firefox_ok :: "string \<Rightarrow> launch" where
  "firefox_ok arg = Launched"

definition snapshot_empty_date :: snapshot where
  "snapshot_empty_date = [(''Boston'', [(''2025-03-25'', [])])]"

definition snapshot_empty_then_open :: snapshot where
  "snapshot_empty_then_open =
     [(''Boston'', [(''2025-03-25'', []), (''2025-03-26'', [''09:00''])])]"

definition snapshot_two_locations :: snapshot where
  "snapshot_two_locations =
     [(''Boston'', [(''2025-03-25'', [''10:30'', ''09:00'']), (''2025-03-26'', [''09:00''])]),
      (''Worcester'', [(''2025-04-01'', [''11:00'']), (''2025-05-01'', [''08:00''])])]"

definition column_apr10_two_groups :: column_element where
  \<comment> \<open>a date of the window with a morning and an afternoon group\<close>
  "column_apr10_two_groups =
     \<lparr>ce_label = Some ''<p>Thursday</p><p>Apr 10, 2025</p>'',
      ce_groups =
        [\<lparr>ge_title = ''Morning'', ge_number = ''1'',
          ge_times = [\<lparr>te_text = ''9:00 AM'', te_datetime = Some ''04/10/2025 09:00:00 AM''\<rparr>]\<rparr>,
         \<lparr>ge_title = ''Afternoon'', ge_number = ''2'',
          ge_times = [\<lparr>te_text = ''1:00 PM'', te_datetime = Some ''04/10/2025 01:00:00 PM''\<rparr>,
                      \<lparr>te_text = ''2:30 PM'', te_datetime = Some ''04/10/2025 02:30:00 PM''\<rparr>]\<rparr>]\<rparr>"

definition column_apr11_no_groups :: column_element where
  \<comment> \<open>a date of the window without any group\<close>
  "column_apr11_no_groups =
     \<lparr>ce_label = Some ''<p>Friday</p><p>Apr 11, 2025</p>'', ce_groups = []\<rparr>"

definition slot :: "string \<Rightarrow> string \<Rightarrow> time_data" where
  "slot display machine_time = \<lparr>td_display = display, td_datetime = Some machine_time\<rparr>"

definition date_apr10_first :: date_data where
  \<comment> \<open>the date as the first page has it: 09:00 and 10:30\<close>
  "date_apr10_first =
     \<lparr>dd_day_name = ''Thursday'', dd_full_date = ''Apr 10, 2025'',
      dd_time_groups =
        [\<lparr>gd_title = ''Morning'', gd_available_count = ''2'',
          gd_times = [slot ''9:00 AM'' ''04/10/2025 09:00:00 AM'',
                      slot ''10:30 AM'' ''04/10/2025 10:30:00 AM'']\<rparr>]\<rparr>"

definition date_apr10_second :: date_data where
  \<comment> \<open>the date as the second page has it: 10:30, 09:00 and 11:00\<close>
  "date_apr10_second =
     \<lparr>dd_day_name = ''Thursday'', dd_full_date = ''Apr 10, 2025'',
      dd_time_groups =
        [\<lparr>gd_title = ''Morning'', gd_available_count = ''3'',
          gd_times = [slot ''10:30 AM'' ''04/10/2025 10:30:00 AM'',
                      slot ''9:00 AM'' ''04/10/2025 09:00:00 AM'',
                      slot ''11:00 AM'' ''04/10/2025 11:00:00 AM'']\<rparr>]\<rparr>"

definition boston_two_pages :: location_data where
  "boston_two_pages =
     \<lparr>ld_location = ''Boston'',
      ld_pages = [\<lparr>pd_buttons = [], pd_dates = [date_apr10_first]\<rparr>,
                  \<lparr>pd_buttons = [], pd_dates = [date_apr10_second]\<rparr>]\<rparr>"

definition town_lost :: town where
  \<comment> \<open>a location whose button cannot be read, on a site that does not come back\<close>
  "town_lost =
     \<lparr>town_text = None, town_pages = [], town_done = False, town_return = False,
      town_recover = False\<rparr>"

definition world_lost :: world where
  "world_lost =
     \<lparr>w_files = files_window, w_blacklist_arg = None, w_site = Some [town_lost],
      w_time = 1743000000, w_python = ''python'', w_alert_script = ''alert.py'',
      w_alert = Some ([], [], 0)\<rparr>"

definition town_boston :: town where
  \<comment> \<open>a location without open dates, visited without an exception\<close>
  "town_boston =
     \<lparr>town_text = Some ''Boston'', town_pages = [], town_done = True, town_return = True,
      town_recover = True\<rparr>"

definition town_worcester :: town where
  "town_worcester =
     \<lparr>town_text = Some '' Worcester  \<newline>'', town_pages = [], town_done = True,
      town_return = True, town_recover = True\<rparr>"

definition world_two_towns :: world where
  \<comment> \<open>two locations, and no \<open>blacklist.txt\<close>\<close>
  "world_two_towns =
     \<lparr>w_files = files_window, w_blacklist_arg = None,
      w_site = Some [town_boston, town_worcester],
      w_time = 1743000000, w_python = ''python'', w_alert_script = ''alert.py'',
      w_alert = Some ([], [], 0)\<rparr>"


section \<open>Properties of \<open>alert.py\<close>\<close>

subsection \<open>The scan of the snapshot\<close>

lemma check_dates_alerts:
  "alerts (check_dates fs url location dates st) =
     alerts st @ map (mk_alert url location) (filter (in_window fs) dates)"
  by (induction dates arbitrary: st) (auto simp: mk_alert_def in_window_def split: prod.splits)

lemma check_dates_match_found:
  "match_found (check_dates fs url location dates st) =
     (match_found st \<or> (\<exists>d \<in> set (filter (in_window fs) dates). snd d \<noteq> []))"
  by (induction dates arbitrary: st) (auto simp: in_window_def split: prod.splits)

lemma check_dates_printed:
  "printed (check_dates fs url location dates st) =
     printed st @ concat (map (\<lambda>d. snd (is_alert_date fs (fst d))) dates)"
  by (induction dates arbitrary: st) (auto split: prod.splits)

lemma check_locations_alerts:
  "alerts (check_locations fs blacklist url data st) =
     alerts st @ expected_alerts fs blacklist url data"
  by (induction data arbitrary: st) (auto simp: expected_alerts_def check_dates_alerts)

lemma alert_times_mk_alert: "alert_times (mk_alert url location d) = sort (snd d)"
  by (cases d) (simp add: mk_alert_def)

lemma sort_eq_Nil: "(sort xs = []) = (xs = [])"
  by (metis length_sort length_0_conv)

lemma mk_alert_times_nonempty:
  "(\<exists>a \<in> set (map (mk_alert url location) ds). alert_times a \<noteq> []) = (\<exists>d \<in> set ds. snd d \<noteq> [])"
  by (simp add: alert_times_mk_alert sort_eq_Nil)

lemma check_locations_match_found:
  "match_found (check_locations fs blacklist url data st) =
     (match_found st \<or> (\<exists>a \<in> set (expected_alerts fs blacklist url data). alert_times a \<noteq> []))"
proof (induction data arbitrary: st)
  case Nil
  show ?case by (simp add: expected_alerts_def)
next
  case (Cons p data)
  obtain location dates where p: "p = (location, dates)" by (cases p)
  have split: "expected_alerts fs blacklist url (p # data) =
      (if location \<in> blacklist then [] else map (mk_alert url location) (filter (in_window fs) dates))
        @ expected_alerts fs blacklist url data"
    by (simp add: expected_alerts_def p)
  show ?case
  proof (cases "location \<in> blacklist")
    case True
    then show ?thesis unfolding split by (simp add: p Cons.IH)
  next
    case False
    then show ?thesis
      unfolding split
      by (simp only: p check_locations.simps if_False Cons.IH check_dates_match_found
            set_append bex_Un mk_alert_times_nonempty disj_assoc)
  qed
qed

lemma check_locations_printed:
  "printed (check_locations fs blacklist url data st) =
     printed st @ scan_prints fs blacklist data"
  by (induction data arbitrary: st) (auto simp: check_dates_printed scan_prints_def)

lemma expected_alerts_location:
  "a \<in> set (expected_alerts fs blacklist url data) \<Longrightarrow> alert_location a \<notin> blacklist"
  by (auto simp: expected_alerts_def mk_alert_def split: if_splits)

lemma expected_alerts_date:
  "a \<in> set (expected_alerts fs blacklist url data) \<Longrightarrow> strptime_ymd (alert_date a) \<noteq> None"
  by (auto simp: expected_alerts_def mk_alert_def in_window_def is_alert_date_def
      split: if_splits option.splits)

subsection \<open>The two loops that keep the first record of a location\<close>

lemma filter_not_in_snoc:
  "filter (\<lambda>b. alert_location b \<notin> set (seen @ [l])) xs =
     filter (\<lambda>b. alert_location b \<noteq> l) (filter (\<lambda>b. alert_location b \<notin> set seen) xs)"
  by (induction xs) auto

lemma print_alerts_eq:
  "\<forall>a \<in> set as. strptime_ymd (alert_date a) \<noteq> None \<Longrightarrow>
   print_alerts as seen =
     (concat (map entry_lines
        (first_per_location (filter (\<lambda>b. alert_location b \<notin> set seen) as))), True)"
proof (induction as arbitrary: seen)
  case Nil
  show ?case by simp
next
  case (Cons a as)
  from Cons.prems obtain dt where dt: "strptime_ymd (alert_date a) = Some dt" by auto
  from Cons.prems have rest: "\<forall>a \<in> set as. strptime_ymd (alert_date a) \<noteq> None" by simp
  show ?case
  proof (cases "alert_location a \<in> set seen")
    case True
    then show ?thesis using Cons.IH [OF rest, of seen] by simp
  next
    case False
    then show ?thesis
      using Cons.IH [OF rest, of "seen @ [alert_location a]"]
      by (simp add: dt entry_lines_def filter_not_in_snoc del: set_append)
  qed
qed

lemma notify_locations_eq:
  "notify_locations firefox as seen =
     (seen @ map alert_location
        (first_per_location (filter (\<lambda>b. alert_location b \<notin> set seen) as)),
      concat (map (notification firefox)
        (first_per_location (filter (\<lambda>b. alert_location b \<notin> set seen) as))))"
proof (induction as arbitrary: seen)
  case Nil
  show ?case by simp
next
  case (Cons a as)
  show ?case
  proof (cases "alert_location a \<in> set seen")
    case True
    then show ?thesis using Cons.IH [of seen] by simp
  next
    case False
    then show ?thesis
      using Cons.IH [of "seen @ [alert_location a]"]
      by (simp add: notification_def filter_not_in_snoc del: set_append)
  qed
qed

lemma first_per_location_find:
  "find (\<lambda>b. alert_location b = l) (first_per_location as) = find (\<lambda>b. alert_location b = l) as"
proof (induction as rule: first_per_location.induct)
  case 1
  show ?case by simp
next
  case (2 a rest)
  have "find (\<lambda>b. alert_location b = l) (filter (\<lambda>b. alert_location b \<noteq> alert_location a) rest)
          = find (\<lambda>b. alert_location b = l) rest" if "alert_location a \<noteq> l"
    using that by (induction rest) auto
  with 2 show ?case by simp
qed

lemma first_per_location_set:
  "alert_location ` set (first_per_location as) = alert_location ` set as"
proof (induction as rule: first_per_location.induct)
  case 1
  show ?case by simp
next
  case (2 a rest)
  then show ?case by auto
qed

lemma first_per_location_subset: "set (first_per_location as) \<subseteq> set as"
  by (induction as rule: first_per_location.induct) auto

lemma first_per_location_distinct: "distinct (map alert_location (first_per_location as))"
proof (induction as rule: first_per_location.induct)
  case 1
  show ?case by simp
next
  case (2 a rest)
  have "alert_location a \<notin> alert_location `
          set (first_per_location (filter (\<lambda>b. alert_location b \<noteq> alert_location a) rest))"
    using first_per_location_subset [of "filter (\<lambda>b. alert_location b \<noteq> alert_location a) rest"]
    by auto
  with 2 show ?case by simp
qed

subsection \<open>A run, unfolded\<close>

lemma analyze_appointments_run:
  fixes fs :: files and url :: string and data :: snapshot and firefox :: "string \<Rightarrow> launch"
  assumes url: "load_url fs = Some url"
  defines "as \<equiv> expected_alerts fs (load_list (blacklist_txt fs)) url data"
  defines "found \<equiv> (\<exists>a \<in> set as. alert_times a \<noteq> [])"
  shows "analyze_appointments fs firefox (Some data) =
     \<lparr>run_exit = 0,
      run_events = scan_prints fs (load_list (blacklist_txt fs)) data @ summary as
                     @ notifications firefox url found as,
      run_alerts = as, run_match_found = found,
      run_notified = (if found then map alert_location (first_per_location as) else [])\<rparr>"
proof -
  define st where "st = check_locations fs (load_list (blacklist_txt fs)) url data
                          \<lparr>alerts = [], match_found = False, printed = []\<rparr>"
  have a: "alerts st = as"
    by (simp add: st_def as_def check_locations_alerts)
  have m: "match_found st = found"
    by (simp add: st_def found_def as_def check_locations_match_found)
  have p: "printed st = scan_prints fs (load_list (blacklist_txt fs)) data"
    by (simp add: st_def check_locations_printed)
  have "\<forall>a \<in> set as. strptime_ymd (alert_date a) \<noteq> None"
    using expected_alerts_date by (auto simp: as_def)
  then have pr: "print_alerts as [] = (concat (map entry_lines (first_per_location as)), True)"
    using print_alerts_eq [of as "[]"] by simp
  have nt: "notify_locations firefox as [] =
      (map alert_location (first_per_location as),
       concat (map (notification firefox) (first_per_location as)))"
    using notify_locations_eq [of firefox as "[]"] by simp
  show ?thesis
    unfolding analyze_appointments_def Let_def url option.case
    unfolding st_def [symmetric]
    by (simp add: a m p pr nt summary_def notifications_def)
qed

subsection \<open>What a run launches\<close>

lemma launches_alert_lines: "filter is_run (alert_lines a dt) = []"
  by (simp add: alert_lines_def)

lemma launches_entry_lines: "filter is_run (entry_lines a) = []"
  by (simp add: entry_lines_def launches_alert_lines split: option.splits)

lemma launches_is_alert_date: "filter is_run (snd (is_alert_date fs d)) = []"
  by (simp add: is_alert_date_def load_time_window_def split: option.splits prod.splits)

lemma filter_concat_Nil: "(\<And>x. x \<in> set xs \<Longrightarrow> filter P (f x) = []) \<Longrightarrow> filter P (concat (map f xs)) = []"
  by (induction xs) auto

lemma launches_scan_prints: "filter is_run (scan_prints fs blacklist data) = []"
  unfolding scan_prints_def
  by (rule filter_concat_Nil) (auto intro!: filter_concat_Nil simp: launches_is_alert_date)

lemma launches_summary: "filter is_run (summary as) = []"
  unfolding summary_def
  by (simp add: filter_concat_Nil launches_entry_lines)

lemma launches_run_firefox: "filter is_run (run_firefox firefox arg) = [Run [''firefox'', arg]]"
  by (simp add: run_firefox_def split: launch.splits)

lemma launches_notification_list:
  "filter is_run (concat (map (notification firefox) as)) =
     map (\<lambda>a. Run [''firefox'', ''https://vas.im/firefox-alert/?alertText='' @ alert_location a]) as"
  by (induction as) (simp_all add: notification_def launches_run_firefox)

lemma launches_notifications:
  "filter is_run (notifications firefox url found as) =
     (if found
      then Run [''firefox'', url] #
           map (\<lambda>a. Run [''firefox'', ''https://vas.im/firefox-alert/?alertText='' @ alert_location a])
             (first_per_location as)
      else [])"
  by (simp add: notifications_def launches_run_firefox launches_notification_list)


subsection \<open>Worked runs\<close>

lemma load_url_default: "load_url files_default = Some ''https://rmv.example/''"
  by code_simp

lemma load_url_window: "load_url files_window = Some ''https://rmv.example/''"
  by code_simp

lemma load_url_boston_excluded: "load_url files_boston_excluded = Some ''https://rmv.example/''"
  by code_simp

lemma blacklist_default: "load_list (blacklist_txt files_default) = {}"
  by (simp add: files_default_def load_list_def)

lemma blacklist_window: "load_list (blacklist_txt files_window) = {}"
  by (simp add: files_window_def files_default_def load_list_def)

lemma strip_boston: "strip ''Boston\<newline>'' = ''Boston''"
  by code_simp

lemma blacklist_boston_excluded: "load_list (blacklist_txt files_boston_excluded) = {''Boston''}"
  by (simp add: files_boston_excluded_def load_list_def strip_boston)

lemma window_default:
  "load_time_window files_default =
     (((2025, 3, 24), (2025, 4, 24)), [Print ''Error loading time window: ''])"
  by code_simp

lemma window_window: "load_time_window files_window = (((2025, 3, 24), (2025, 4, 24)), [])"
  by code_simp

lemma window_boston_excluded:
  "load_time_window files_boston_excluded = (((2025, 3, 24), (2025, 4, 24)), [])"
  by code_simp

lemma parse_0324: "strptime_ymd ''2025-03-24'' = Some (2025, 3, 24)"
  by code_simp

lemma parse_0325: "strptime_ymd ''2025-03-25'' = Some (2025, 3, 25)"
  by code_simp

lemma parse_0326: "strptime_ymd ''2025-03-26'' = Some (2025, 3, 26)"
  by code_simp

lemma parse_0401: "strptime_ymd ''2025-04-01'' = Some (2025, 4, 1)"
  by code_simp

lemma parse_0423: "strptime_ymd ''2025-04-23'' = Some (2025, 4, 23)"
  by code_simp

lemma parse_0424: "strptime_ymd ''2025-04-24'' = Some (2025, 4, 24)"
  by code_simp

lemma parse_0501: "strptime_ymd ''2025-05-01'' = Some (2025, 5, 1)"
  by code_simp



lemma parse_month_13: "strptime_ymd ''2025-13-01'' = None"
  by code_simp

lemma alerts_empty_date:
  "expected_alerts files_default {} ''https://rmv.example/'' snapshot_empty_date =
     [\<lparr>alert_location = ''Boston'', alert_date = ''2025-03-25'', alert_times = [],
       alert_url = ''https://rmv.example/''\<rparr>]"
  by (simp add: expected_alerts_def snapshot_empty_date_def in_window_def mk_alert_def
        is_alert_date_def parse_0325 window_default)

lemma alerts_empty_then_open:
  "expected_alerts files_default {} ''https://rmv.example/'' snapshot_empty_then_open =
     [\<lparr>alert_location = ''Boston'', alert_date = ''2025-03-25'', alert_times = [],
       alert_url = ''https://rmv.example/''\<rparr>,
      \<lparr>alert_location = ''Boston'', alert_date = ''2025-03-26'', alert_times = [''09:00''],
       alert_url = ''https://rmv.example/''\<rparr>]"
  by (simp add: expected_alerts_def snapshot_empty_then_open_def in_window_def mk_alert_def
        is_alert_date_def parse_0325 parse_0326 window_default)

lemma sort_1030_0900: "sort [''10:30'', ''09:00''] = [''09:00'', ''10:30'']"
  by code_simp

lemma alerts_two_locations:
  "expected_alerts files_window {} ''https://rmv.example/'' snapshot_two_locations =
     [\<lparr>alert_location = ''Boston'', alert_date = ''2025-03-25'',
       alert_times = [''09:00'', ''10:30''], alert_url = ''https://rmv.example/''\<rparr>,
      \<lparr>alert_location = ''Boston'', alert_date = ''2025-03-26'', alert_times = [''09:00''],
       alert_url = ''https://rmv.example/''\<rparr>,
      \<lparr>alert_location = ''Worcester'', alert_date = ''2025-04-01'', alert_times = [''11:00''],
       alert_url = ''https://rmv.example/''\<rparr>]"
  by (simp add: expected_alerts_def snapshot_two_locations_def in_window_def mk_alert_def
        is_alert_date_def parse_0325 parse_0326 parse_0401 parse_0501 window_window
        sort_1030_0900)

lemma alerts_two_locations_boston_excluded:
  "expected_alerts files_boston_excluded {''Boston''} ''https://rmv.example/''
     snapshot_two_locations =
     [\<lparr>alert_location = ''Worcester'', alert_date = ''2025-04-01'', alert_times = [''11:00''],
       alert_url = ''https://rmv.example/''\<rparr>]"
  by (simp add: expected_alerts_def snapshot_two_locations_def in_window_def mk_alert_def
        is_alert_date_def parse_0401 parse_0501 window_boston_excluded)


subsection \<open>Dates written and read back\<close>

lemma less_10_cases: "k < 10 \<Longrightarrow> k = 0 \<or> k = 1 \<or> k = 2 \<or> k = 3 \<or> k = 4 \<or> k = 5 \<or> k = 6 \<or> k = 7 \<or> k = 8 \<or> k = (9::nat)"
    by arith

lemma digit_char_code:
  assumes "k < 10"
  shows "(of_char (''0123456789'' ! k) :: nat) = 48 + k"
proof -
  from less_10_cases [OF assms] show ?thesis by (elim disjE) simp_all
qed

lemma digit_char_digit: "is_digit (digit_char n)" "digit_val (digit_char n) = n mod 10"
  by (simp_all add: is_digit_def digit_val_def digit_char_def digit_char_code)

lemma digit_char_not_sep: "digit_char n \<noteq> CHR '' ''" "digit_char n \<noteq> CHR ''-''"
proof -
  have "(of_char (digit_char n) :: nat) = 48 + n mod 10"
    by (simp add: digit_char_def digit_char_code)
  then show "digit_char n \<noteq> CHR '' ''" "digit_char n \<noteq> CHR ''-''"
    by auto
qed

lemma dig_digit_char:
  "dig lo hi (digit_char n # r) = (if lo \<le> n mod 10 \<and> n mod 10 \<le> hi then [(n mod 10, r)] else [])"
  by (simp add: dig_def digit_char_digit)

lemma decimal2: "n < 100 \<Longrightarrow> 10 * (n div 10 mod 10) + n mod 10 = (n::nat)"
proof -
  assume "n < 100"
  then have "n div 10 < 10" by simp
  then have "n div 10 mod 10 = n div 10" by simp
  then show ?thesis by simp
qed

lemma decimal4:
  assumes "y < 10000"
  shows "1000 * (y div 1000 mod 10) + 100 * (y div 100 mod 10) + 10 * (y div 10 mod 10)
           + y mod 10 = (y::nat)"
proof -
  define a where "a = y div 10"
  define b where "b = a div 10"
  define c where "c = b div 10"
  have ab: "y div 100 = b" "y div 1000 = c"
    by (simp_all add: a_def b_def c_def div_mult2_eq)
  from assms have "c < 10" unfolding ab(2) [symmetric] by simp
  then have c: "c mod 10 = c" by simp
  have "y = 10 * a + y mod 10" "a = 10 * b + a mod 10" "b = 10 * c + b mod 10"
    by (simp_all add: a_def b_def c_def)
  then show ?thesis
    unfolding ab a_def [symmetric] c by linarith
qed

lemma dig_any: "dig 0 9 (digit_char n # r) = [(n mod 10, r)]"
proof -
  have "n mod 10 \<le> 9" by (simp add: Suc_leI [THEN Suc_le_mono [THEN iffD1]] less_Suc_eq_le [symmetric])
  then show ?thesis by (simp add: dig_digit_char)
qed

lemma re_Y_pad4:
  assumes "y < 10000"
  shows "re_Y (pad4 y @ r) = [(y, r)]"
  by (simp add: re_Y_def pad4_def then_p_def return_p_def dig_any decimal4 [OF assms])

lemma re_m_pad2:
  assumes "1 \<le> m" "m \<le> 12"
  shows "then_p re_m (\<lambda>v. then_p (lit CHR ''-'') (\<lambda>_. f v)) (pad2 m @ CHR ''-'' # r) = f m r"
proof (cases "m < 10")
  case True
  then have "m div 10 = 0" "m mod 10 = m" by simp_all
  with assms(1) True show ?thesis
    by (simp add: re_m_def alt_p_def dig2_def then_p_def return_p_def pad2_def
          dig_digit_char lit_def)
next
  case False
  with assms(2) have "m = 10 \<or> m = 11 \<or> m = 12" by arith
  then show ?thesis
    by (elim disjE)
       (simp_all add: re_m_def alt_p_def dig2_def then_p_def return_p_def pad2_def
          dig_digit_char lit_def digit_char_not_sep)
qed

lemma re_d_pad2:
  assumes "1 \<le> d" "d \<le> 31"
  shows "\<exists>others. then_p re_d (\<lambda>v. return_p (f v)) (pad2 d) = (f d, []) # others"
proof -
  have v: "10 * (d div 10 mod 10) + d mod 10 = d" using assms by (intro decimal2) simp
  have m: "d mod 10 \<le> 9" by (simp add: less_Suc_eq_le [symmetric])
  have "d div 10 = 0 \<and> 1 \<le> d mod 10 \<or> d div 10 = 1 \<or> d div 10 = 2
        \<or> d div 10 = 3 \<and> d mod 10 \<le> 1"
    using assms by arith
  then show ?thesis
    using v m
    by (elim disjE)
       (auto simp: re_d_def alt_p_def dig2_def then_p_def return_p_def pad2_def
          dig_digit_char lit_def digit_char_not_sep)
qed

lemma days_in_month_le: "days_in_month y m \<le> 31"
  by (simp add: days_in_month_def)

lemma strptime_strftime_ymd:
  assumes "mk_datetime y m d = Some dt"
  shows "strptime_ymd (strftime_ymd dt) = Some dt"
proof -
  from assms have b: "1 \<le> y" "y < 10000" "1 \<le> m" "m \<le> 12" "1 \<le> d" "d \<le> days_in_month y m"
    and dt: "dt = (y, m, d)"
    by (auto simp: mk_datetime_def split: if_splits)
  from b(6) days_in_month_le [of y m] have d31: "d \<le> 31" by linarith
  have "then_p re_Y (\<lambda>y. then_p (lit CHR ''-'') (\<lambda>_. then_p re_m (\<lambda>m.
           then_p (lit CHR ''-'') (\<lambda>_. then_p re_d (\<lambda>d. return_p (y, m, d))))))
          (pad4 y @ CHR ''-'' # pad2 m @ CHR ''-'' # pad2 d) =
        then_p re_d (\<lambda>d. return_p (y, m, d)) (pad2 d)"
    using re_m_pad2 [OF b(3,4), of "\<lambda>m. then_p re_d (\<lambda>d. return_p (y, m, d))" "pad2 d"]
    by (simp add: then_p_def [of re_Y] re_Y_pad4 [OF b(2)] then_p_def [of "lit CHR ''-''"] lit_def)
  moreover from re_d_pad2 [OF b(5) d31, of "\<lambda>d. (y, m, d)"] obtain others where
    "then_p re_d (\<lambda>d. return_p (y, m, d)) (pad2 d) = ((y, m, d), []) # others"
    by blast
  ultimately show ?thesis
    using assms by (simp add: strptime_ymd_def strftime_ymd_def dt first_match_def)
qed

subsection \<open>The texts that \<open>strptime\<close> accepts as a date\<close>












































subsection \<open>The time window\<close>

lemma load_time_window_file:
  assumes "time_window_json fs = Some window"
    and "window_member window ''start_date'' = Some start_date"
    and "window_member window ''end_date'' = Some end_date"
  shows "load_time_window fs = ((start_date, end_date), [])"
  using assms by (simp add: load_time_window_def)

text \<open>
  C7. With the window \<open>(start_date, end_date)\<close> that \<open>load_time_window\<close> gives, a date
  string that \<open>strptime\<close> accepts as \<open>%Y-%m-%d\<close> is an alert date exactly when
  \<open>start_date \<le> date < end_date\<close>: the start belongs to the window, the end does not.
  Every date written as \<open>YYYY-MM-DD\<close> (four, two and two digits) is such a string and
  is read back as itself. For the window from 2025-03-24 to 2025-04-24, 2025-03-24 and
  2025-04-23 are alert dates and 2025-04-24 is not.
\<close>

theorem is_alert_date_start_inclusive_end_exclusive:
  assumes "fst (load_time_window fs) = (start_date, end_date)"
  shows "(strptime_ymd d = Some date \<longrightarrow>
            fst (is_alert_date fs d) = (start_date \<le> date \<and> date < end_date))
       \<and> (mk_datetime year month day = Some dt \<longrightarrow>
            strptime_ymd (strftime_ymd dt) = Some dt
          \<and> fst (is_alert_date fs (strftime_ymd dt)) = (start_date \<le> dt \<and> dt < end_date))
       \<and> (start_date = (2025, 3, 24) \<and> end_date = (2025, 4, 24) \<longrightarrow>
            fst (is_alert_date fs ''2025-03-24'')
          \<and> \<not> fst (is_alert_date fs ''2025-04-24'')
          \<and> fst (is_alert_date fs ''2025-04-23''))"
proof -
  have general: "fst (is_alert_date fs s) = (start_date \<le> dt \<and> dt < end_date)"
    if "strptime_ymd s = Some dt" for s dt
    using that assms by (cases "load_time_window fs") (auto simp: is_alert_date_def)
  have "((2025, 3, 24) :: datetime) \<le> (2025, 3, 24)" "((2025, 3, 24) :: datetime) < (2025, 4, 24)"
       "\<not> ((2025, 4, 24) :: datetime) < (2025, 4, 24)"
       "((2025, 3, 24) :: datetime) \<le> (2025, 4, 23)" "((2025, 4, 23) :: datetime) < (2025, 4, 24)"
    by (simp_all add: less_eq_prod_def less_prod_def)
  moreover have "strptime_ymd (strftime_ymd dt) = Some dt
      \<and> fst (is_alert_date fs (strftime_ymd dt)) = (start_date \<le> dt \<and> dt < end_date)"
    if "mk_datetime year month day = Some dt"
    using strptime_strftime_ymd [OF that] general by simp
  ultimately show ?thesis
    using general [OF parse_0324] general [OF parse_0424] general [OF parse_0423] general
    by simp
qed

theorem is_alert_date_start_inclusive_end_exclusive_witness:
  "fst (load_time_window files_window) = ((2025, 3, 24), (2025, 4, 24))
   \<and> strptime_ymd ''2025-04-01'' = Some (2025, 4, 1)
   \<and> fst (is_alert_date files_window ''2025-04-01'')
   \<and> fst (is_alert_date files_window ''2025-03-24'')
   \<and> \<not> fst (is_alert_date files_window ''2025-04-24'')
   \<and> fst (is_alert_date files_window ''2025-04-23'')"
proof -
  have w: "fst (load_time_window files_window) = ((2025, 3, 24), (2025, 4, 24))"
    by (simp add: window_window)
  have "((2025, 3, 24) :: datetime) \<le> (2025, 4, 1)" "((2025, 4, 1) :: datetime) < (2025, 4, 24)"
    by (simp_all add: less_eq_prod_def less_prod_def)
  then show ?thesis
    using is_alert_date_start_inclusive_end_exclusive [OF w, of "''2025-04-01''" "(2025, 4, 1)"]
      w parse_0401
    by simp
qed




subsection \<open>The alert records\<close>

lemma expected_alerts_all_empty:
  assumes "\<forall>l \<in> set data. \<forall>d \<in> set (snd l). snd d = []"
    and "a \<in> set (expected_alerts fs blacklist url data)"
  shows "alert_times a = []"
proof -
  from assms(2) obtain location dates d
    where "(location, dates) \<in> set data" "d \<in> set dates" "a = mk_alert url location d"
    by (auto simp: expected_alerts_def split: if_splits)
  with assms(1) show ?thesis
    by (cases d) (force simp: mk_alert_def)
qed

text \<open>
  C2, as the specification states it, fails: a snapshot whose only date is in the window
  and has no times gives an alert record (with an empty list of times), and the summary of
  alerts is printed for it.
\<close>

theorem alert_for_empty_date_counterexample:
  "run_alerts (analyze_appointments files_default firefox_ok (Some snapshot_empty_date)) =
     [\<lparr>alert_location = ''Boston'', alert_date = ''2025-03-25'', alert_times = [],
       alert_url = ''https://rmv.example/''\<rparr>]
   \<and> Print (''\<newline>=== ALERT: Available Appointments Found ==='')
       \<in> set (run_events (analyze_appointments files_default firefox_ok (Some snapshot_empty_date)))"
  by (simp add: analyze_appointments_run [OF load_url_default] blacklist_default
        alerts_empty_date summary_def)

text \<open>
  C2, amended. When the URL file can be read, \<open>analyze_appointments\<close> records an alert for
  every location that is not excluded and every date of it in the window, whether or not
  the date has times. Only \<open>match_found\<close> depends on the times: it holds exactly when one of
  the records has a time, and without it nothing is launched. So a snapshot whose every
  list of times is empty launches nothing, while its dates in the window are still recorded.
\<close>

theorem alerts_recorded_for_every_date_in_window:
  assumes "load_url fs = Some url"
  shows "run_alerts (analyze_appointments fs firefox (Some data)) =
           expected_alerts fs (load_list (blacklist_txt fs)) url data
       \<and> run_match_found (analyze_appointments fs firefox (Some data)) =
           (\<exists>a \<in> set (run_alerts (analyze_appointments fs firefox (Some data))).
              alert_times a \<noteq> [])
       \<and> (\<not> run_match_found (analyze_appointments fs firefox (Some data)) \<longrightarrow>
            filter is_run (run_events (analyze_appointments fs firefox (Some data))) = [])
       \<and> ((\<forall>l \<in> set data. \<forall>d \<in> set (snd l). snd d = []) \<longrightarrow>
            \<not> run_match_found (analyze_appointments fs firefox (Some data)))"
proof -
  have "\<not> (\<exists>a \<in> set (expected_alerts fs (load_list (blacklist_txt fs)) url data).
             alert_times a \<noteq> [])"
    if "\<forall>l \<in> set data. \<forall>d \<in> set (snd l). snd d = []"
    using expected_alerts_all_empty [OF that] by blast
  then show ?thesis
    by (simp add: analyze_appointments_run [OF assms] launches_scan_prints launches_summary
          launches_notifications)
qed

theorem alerts_recorded_for_every_date_in_window_witness:
  "load_url files_window = Some ''https://rmv.example/''
   \<and> run_alerts (analyze_appointments files_window firefox_ok (Some snapshot_two_locations)) =
     [\<lparr>alert_location = ''Boston'', alert_date = ''2025-03-25'',
       alert_times = [''09:00'', ''10:30''], alert_url = ''https://rmv.example/''\<rparr>,
      \<lparr>alert_location = ''Boston'', alert_date = ''2025-03-26'', alert_times = [''09:00''],
       alert_url = ''https://rmv.example/''\<rparr>,
      \<lparr>alert_location = ''Worcester'', alert_date = ''2025-04-01'', alert_times = [''11:00''],
       alert_url = ''https://rmv.example/''\<rparr>]
   \<and> run_match_found (analyze_appointments files_window firefox_ok (Some snapshot_two_locations))"
  using alerts_recorded_for_every_date_in_window
          [OF load_url_window, of firefox_ok snapshot_two_locations]
  by (simp add: load_url_window blacklist_window alerts_two_locations)

text \<open>
  C4. No alert record of a run is for a location of the exclusion set (the lines of
  \<open>blacklist.txt\<close>, stripped), and no such location is among the locations notified,
  whatever the snapshot holds for it.
\<close>

theorem excluded_location_never_alerted:
  "(\<forall>a \<in> set (run_alerts (analyze_appointments fs firefox data_file)).
      alert_location a \<notin> load_list (blacklist_txt fs))
   \<and> (\<forall>l \<in> set (run_notified (analyze_appointments fs firefox data_file)).
      l \<notin> load_list (blacklist_txt fs))"
proof (cases "load_url fs")
  case None
  then show ?thesis by (simp add: analyze_appointments_def)
next
  case (Some url)
  show ?thesis
  proof (cases data_file)
    case None
    then show ?thesis by (simp add: analyze_appointments_def Some)
  next
    case (Some data)
    have "alert_location a \<notin> load_list (blacklist_txt fs)"
      if "a \<in> set (first_per_location (expected_alerts fs (load_list (blacklist_txt fs)) url data))"
      for a
      using that first_per_location_subset expected_alerts_location by blast
    then show ?thesis
      using expected_alerts_location [of _ fs "load_list (blacklist_txt fs)" url data]
      by (auto simp: Some analyze_appointments_run [OF \<open>load_url fs = Some url\<close>])
  qed
qed

theorem excluded_location_never_alerted_witness:
  "''Boston'' \<in> load_list (blacklist_txt files_boston_excluded)
   \<and> ''Boston'' \<in> fst ` set snapshot_two_locations
   \<and> ''Boston'' \<notin> alert_location `
        set (run_alerts (analyze_appointments files_boston_excluded firefox_ok
               (Some snapshot_two_locations)))
   \<and> ''Boston'' \<notin>
        set (run_notified (analyze_appointments files_boston_excluded firefox_ok
               (Some snapshot_two_locations)))"
proof -
  have b: "''Boston'' \<in> load_list (blacklist_txt files_boston_excluded)"
    by (simp add: blacklist_boston_excluded)
  have s: "''Boston'' \<in> fst ` set snapshot_two_locations"
    by (simp add: snapshot_two_locations_def)
  show ?thesis
    using excluded_location_never_alerted
            [of files_boston_excluded firefox_ok "Some snapshot_two_locations"] b s
    by auto
qed


subsection \<open>The summary and the notifications\<close>

lemma alerts_empty_then_open_window:
  "expected_alerts files_window {} ''https://rmv.example/'' snapshot_empty_then_open =
     [\<lparr>alert_location = ''Boston'', alert_date = ''2025-03-25'', alert_times = [],
       alert_url = ''https://rmv.example/''\<rparr>,
      \<lparr>alert_location = ''Boston'', alert_date = ''2025-03-26'', alert_times = [''09:00''],
       alert_url = ''https://rmv.example/''\<rparr>]"
  by (simp add: expected_alerts_def snapshot_empty_then_open_def in_window_def mk_alert_def
        is_alert_date_def parse_0325 parse_0326 window_window)

lemma scan_prints_empty_then_open_window:
  "scan_prints files_window {} snapshot_empty_then_open = []"
  by (simp add: scan_prints_def snapshot_empty_then_open_def is_alert_date_def parse_0325
        parse_0326 window_window)

lemma weekday_0325: "strftime_A (2025, 3, 25) = ''Tuesday''"
  by (simp add: strftime_A_def toordinal_def days_before_year_def days_before_month_def
        is_leap_def)

text \<open>
  C5, as the specification states it, fails in both of its parts. In the first run the
  only location has a date without times before a date with times: the one entry printed
  for it is for the date without times. In the second run the only date has no times: its
  location is in the summary, and nothing is launched for it.
\<close>

theorem summary_first_date_without_times_counterexample:
  "run_events (analyze_appointments files_window firefox_ok (Some snapshot_empty_then_open)) =
     Print ''\<newline>=== ALERT: Available Appointments Found ==='' #
     alert_lines
       \<lparr>alert_location = ''Boston'', alert_date = ''2025-03-25'', alert_times = [],
        alert_url = ''https://rmv.example/''\<rparr> (2025, 3, 25) @
     [Print ''\<newline>Matching appointments found! Launching Firefox...'',
      Run [''firefox'', ''https://rmv.example/''],
      Run [''firefox'', ''https://vas.im/firefox-alert/?alertText=Boston'']]
   \<and> hd (alert_lines
       \<lparr>alert_location = ''Boston'', alert_date = ''2025-03-25'', alert_times = [],
        alert_url = ''https://rmv.example/''\<rparr> (2025, 3, 25)) =
     Print ''\<newline>Boston on Tuesday, 2025-03-25 at ''
   \<and> run_alerts (analyze_appointments files_default firefox_ok (Some snapshot_empty_date)) =
     [\<lparr>alert_location = ''Boston'', alert_date = ''2025-03-25'', alert_times = [],
       alert_url = ''https://rmv.example/''\<rparr>]
   \<and> filter is_run
       (run_events (analyze_appointments files_default firefox_ok (Some snapshot_empty_date))) = []
   \<and> run_notified (analyze_appointments files_default firefox_ok (Some snapshot_empty_date)) = []"
proof -
  have first_run:
    "run_events (analyze_appointments files_window firefox_ok (Some snapshot_empty_then_open)) =
       Print ''\<newline>=== ALERT: Available Appointments Found ==='' #
       alert_lines
         \<lparr>alert_location = ''Boston'', alert_date = ''2025-03-25'', alert_times = [],
          alert_url = ''https://rmv.example/''\<rparr> (2025, 3, 25) @
       [Print ''\<newline>Matching appointments found! Launching Firefox...'',
        Run [''firefox'', ''https://rmv.example/''],
        Run [''firefox'', ''https://vas.im/firefox-alert/?alertText=Boston'']]"
    by (simp add: analyze_appointments_run [OF load_url_window] blacklist_window
          alerts_empty_then_open_window scan_prints_empty_then_open_window summary_def
          entry_lines_def parse_0325 notifications_def notification_def run_firefox_def
          firefox_ok_def)
  have first_line:
    "hd (alert_lines
       \<lparr>alert_location = ''Boston'', alert_date = ''2025-03-25'', alert_times = [],
        alert_url = ''https://rmv.example/''\<rparr> (2025, 3, 25)) =
     Print ''\<newline>Boston on Tuesday, 2025-03-25 at ''"
    by (simp add: alert_lines_def weekday_0325)
  have second_run:
    "run_alerts (analyze_appointments files_default firefox_ok (Some snapshot_empty_date)) =
       [\<lparr>alert_location = ''Boston'', alert_date = ''2025-03-25'', alert_times = [],
         alert_url = ''https://rmv.example/''\<rparr>]"
    "filter is_run
       (run_events (analyze_appointments files_default firefox_ok (Some snapshot_empty_date))) = []"
    "run_notified (analyze_appointments files_default firefox_ok (Some snapshot_empty_date)) = []"
    by (simp_all add: analyze_appointments_run [OF load_url_default] blacklist_default
          alerts_empty_date launches_scan_prints launches_summary launches_notifications)
  from first_run first_line second_run show ?thesis by (intro conjI)
qed

text \<open>
  C5, amended. When the URL file can be read, a run prints, after the diagnostics of the
  scan, the summary: nothing when there is no alert record, else the heading and the six
  lines of the first record of every location that has a record, in the order of the
  records (the first date of the location in the window, with or without times). When some
  record has a time, the run then launches the viewer on the URL and, once for every
  location that has a record (also one whose dates have no times), the viewer on the
  notification address of the location; when no record has a time, it launches nothing.
  \<open>first_per_location\<close> keeps one record for every location, the first one.
\<close>

theorem summary_and_notifications_once_per_location:
  assumes "load_url fs = Some url"
  shows "run_events (analyze_appointments fs firefox (Some data)) =
           scan_prints fs (load_list (blacklist_txt fs)) data
           @ summary (run_alerts (analyze_appointments fs firefox (Some data)))
           @ notifications firefox url
               (run_match_found (analyze_appointments fs firefox (Some data)))
               (run_alerts (analyze_appointments fs firefox (Some data)))
       \<and> filter is_run (run_events (analyze_appointments fs firefox (Some data))) =
           (if run_match_found (analyze_appointments fs firefox (Some data))
            then Run [''firefox'', url] #
                 map (\<lambda>a. Run [''firefox'',
                                 ''https://vas.im/firefox-alert/?alertText='' @ alert_location a])
                   (first_per_location (run_alerts (analyze_appointments fs firefox (Some data))))
            else [])
       \<and> run_notified (analyze_appointments fs firefox (Some data)) =
           (if run_match_found (analyze_appointments fs firefox (Some data))
            then map alert_location
                   (first_per_location (run_alerts (analyze_appointments fs firefox (Some data))))
            else [])
       \<and> distinct (map alert_location
           (first_per_location (run_alerts (analyze_appointments fs firefox (Some data)))))
       \<and> alert_location `
             set (first_per_location (run_alerts (analyze_appointments fs firefox (Some data)))) =
           alert_location ` set (run_alerts (analyze_appointments fs firefox (Some data)))
       \<and> (\<forall>l. find (\<lambda>b. alert_location b = l)
                  (first_per_location (run_alerts (analyze_appointments fs firefox (Some data)))) =
                find (\<lambda>b. alert_location b = l)
                  (run_alerts (analyze_appointments fs firefox (Some data))))"
  by (simp add: analyze_appointments_run [OF assms] launches_scan_prints launches_summary
        launches_notifications first_per_location_distinct first_per_location_set
        first_per_location_find)

theorem summary_and_notifications_once_per_location_witness:
  "load_url files_window = Some ''https://rmv.example/''
   \<and> filter is_run
       (run_events (analyze_appointments files_window firefox_ok (Some snapshot_two_locations))) =
     [Run [''firefox'', ''https://rmv.example/''],
      Run [''firefox'', ''https://vas.im/firefox-alert/?alertText=Boston''],
      Run [''firefox'', ''https://vas.im/firefox-alert/?alertText=Worcester'']]
   \<and> run_notified (analyze_appointments files_window firefox_ok (Some snapshot_two_locations)) =
     [''Boston'', ''Worcester'']"
proof -
  have a: "run_alerts (analyze_appointments files_window firefox_ok (Some snapshot_two_locations)) =
      expected_alerts files_window {} ''https://rmv.example/'' snapshot_two_locations"
    by (simp add: analyze_appointments_run [OF load_url_window] blacklist_window)
  have m: "run_match_found (analyze_appointments files_window firefox_ok (Some snapshot_two_locations))"
    by (simp add: analyze_appointments_run [OF load_url_window] blacklist_window
          alerts_two_locations)
  note run = summary_and_notifications_once_per_location
                 [OF load_url_window, of firefox_ok snapshot_two_locations]
  from run [THEN conjunct2, THEN conjunct1] have launched:
    "filter is_run
       (run_events (analyze_appointments files_window firefox_ok (Some snapshot_two_locations))) =
     Run [''firefox'', ''https://rmv.example/''] #
     map (\<lambda>a. Run [''firefox'', ''https://vas.im/firefox-alert/?alertText='' @ alert_location a])
       (first_per_location
          (expected_alerts files_window {} ''https://rmv.example/'' snapshot_two_locations))"
    by (simp only: a m if_True)
  from run [THEN conjunct2, THEN conjunct2, THEN conjunct1] have notified:
    "run_notified (analyze_appointments files_window firefox_ok (Some snapshot_two_locations)) =
     map alert_location
       (first_per_location
          (expected_alerts files_window {} ''https://rmv.example/'' snapshot_two_locations))"
    by (simp only: a m if_True)
  show ?thesis
    unfolding launched notified
    by (simp add: load_url_window alerts_two_locations)
qed



section \<open>Properties of \<open>browse.py\<close>\<close>

subsection \<open>Outcomes\<close>

lemma fst_after [simp]: "fst (after evs m) = fst m"
  by (simp add: after_def)

lemma fst_returns [simp]: "fst (returns a) = Inr a"
  by (simp add: returns_def)

lemma fst_raises [simp]: "fst (raises e) = Inl e"
  by (simp add: raises_def)

lemma fst_bind_o_Inr: "fst m = Inr a \<Longrightarrow> fst (bind_o m f) = fst (f a)"
  by (cases m) (simp add: bind_o_def)

lemma fst_bind_o_Inl: "fst m = Inl e \<Longrightarrow> fst (bind_o m f) = Inl e"
  by (cases m) (simp add: bind_o_def)

lemma read_times_result:
  "fst (read_times location day_name full_date tes acc fl) =
     (acc @ map (\<lambda>t. \<lparr>td_display = te_text t, td_datetime = te_datetime t\<rparr>) tes,
      if tes = [] then fl else \<lparr>location_printed = True, last_date = Some full_date\<rparr>)"
proof (induction tes arbitrary: acc fl)
  case Nil
  show ?case by simp
next
  case (Cons t tes)
  let ?acc = "acc @ [\<lparr>td_display = te_text t, td_datetime = te_datetime t\<rparr>]"
  let ?fl = "\<lparr>location_printed = True, last_date = Some full_date\<rparr>"
  have "fst (read_times location day_name full_date (t # tes) acc fl) =
        fst (read_times location day_name full_date tes ?acc ?fl)"
    by (simp split: prod.splits)
  also have "\<dots> = (?acc @ map (\<lambda>t. \<lparr>td_display = te_text t, td_datetime = te_datetime t\<rparr>) tes,
                    if tes = [] then ?fl else ?fl)"
    by (rule Cons.IH)
  finally show ?case by simp
qed

lemma read_groups_result:
  "fst (fst (read_groups location day_name full_date gs gd fl)) =
     (if gs = [] then gd else Some (group_of (last gs)))"
proof (induction gs arbitrary: gd fl)
  case Nil
  show ?case by simp
next
  case (Cons g gs)
  obtain ts fl' evs where rt: "read_times location day_name full_date (ge_times g) [] fl = ((ts, fl'), evs)"
    by (metis prod.exhaust)
  then have ts: "ts = map (\<lambda>t. \<lparr>td_display = te_text t, td_datetime = te_datetime t\<rparr>) (ge_times g)"
    using read_times_result [of location day_name full_date "ge_times g" "[]" fl] by simp
  show ?case
    using Cons.IH [of "Some \<lparr>gd_title = ge_title g, gd_available_count = ge_number g, gd_times = ts\<rparr>" fl']
    by (auto simp: rt ts group_of_def split: prod.splits)
qed

lemma parse_column_in_window:
  assumes "column_date fs c = Some (day_name, full_date)"
  shows "fst (parse_column fs location c st) =
     (case (if ce_groups c = [] then ps_group_data st else Some (group_of (last (ce_groups c)))) of
        None \<Rightarrow> Inl UnboundLocalError
      | Some g \<Rightarrow>
          Inr \<lparr>ps_dates = ps_dates st @
                  [\<lparr>dd_day_name = day_name, dd_full_date = full_date, dd_time_groups = [g]\<rparr>],
               ps_group_data = Some g\<rparr>)"
proof -
  from assms obtain date_label date_obj evs where
    l: "ce_label c = Some date_label" "search_label date_label = Some (day_name, full_date)"
       "strptime_bdY full_date = Some date_obj"
       "is_alert_date fs (strftime_ymd date_obj) = (True, evs)"
    by (auto simp: column_date_def split: Option.bind_splits if_splits prod.splits)
       (metis prod.collapse)
  obtain gd fl evs' where rg:
    "read_groups location day_name full_date (ce_groups c) (ps_group_data st)
       \<lparr>location_printed = False, last_date = None\<rparr> = ((gd, fl), evs')"
    by (metis prod.exhaust)
  have gd: "gd = (if ce_groups c = [] then ps_group_data st else Some (group_of (last (ce_groups c))))"
    using read_groups_result [of location day_name full_date "ce_groups c" "ps_group_data st"
        "\<lparr>location_printed = False, last_date = None\<rparr>"] rg by simp
  show ?thesis
    unfolding gd [symmetric]
    by (simp add: parse_column_def l rg split: option.splits)
qed

lemma parse_column_outside:
  assumes "column_date fs c = None" and "fst (parse_column fs location c st) = Inr st'"
  shows "st' = st"
  using assms
  by (auto simp: parse_column_def column_date_def split: option.splits prod.splits bool.splits Option.bind_splits if_splits)


subsection \<open>The loop over the columns\<close>

lemma parse_columns_append_Inr:
  "fst (parse_columns fs location xs st) = Inr st1 \<Longrightarrow>
   fst (parse_columns fs location (xs @ ys) st) = fst (parse_columns fs location ys st1)"
proof (induction xs arbitrary: st)
  case Nil
  then show ?case by simp
next
  case (Cons c xs)
  show ?case
  proof (cases "fst (parse_column fs location c st)")
    case (Inl e)
    with Cons.prems show ?thesis by (simp add: fst_bind_o_Inl)
  next
    case (Inr st0)
    with Cons.prems have "fst (parse_columns fs location xs st0) = Inr st1"
      by (simp add: fst_bind_o_Inr)
    from Cons.IH [OF this] Inr show ?thesis by (simp add: fst_bind_o_Inr)
  qed
qed

lemma parse_column_step:
  assumes "fst (parse_column fs location c st) = Inr st1"
  shows "ps_group_data st1 =
           (if column_date fs c \<noteq> None \<and> ce_groups c \<noteq> []
            then Some (group_of (last (ce_groups c))) else ps_group_data st)
       \<and> (\<exists>added. ps_dates st1 = ps_dates st @ added
              \<and> (\<forall>d \<in> set added. length (dd_time_groups d) = 1))"
proof (cases "column_date fs c")
  case None
  have "st1 = st" by (rule parse_column_outside [OF None assms])
  with None show ?thesis by simp
next
  case (Some p)
  obtain day_name full_date where p: "p = (day_name, full_date)" by (cases p)
  from parse_column_in_window [of fs c day_name full_date location st] Some p assms
  show ?thesis by (auto split: option.splits if_splits)
qed

lemma parse_columns_group_data:
  "fst (parse_columns fs location cs st) = Inr st' \<Longrightarrow>
   ps_group_data st' = carried_group fs cs (ps_group_data st)"
proof (induction cs arbitrary: st)
  case Nil
  then show ?case by simp
next
  case (Cons c cs)
  show ?case
  proof (cases "fst (parse_column fs location c st)")
    case (Inl e)
    with Cons.prems show ?thesis by (simp add: fst_bind_o_Inl)
  next
    case (Inr st1)
    with Cons.prems have "fst (parse_columns fs location cs st1) = Inr st'"
      by (simp add: fst_bind_o_Inr)
    from Cons.IH [OF this] parse_column_step [OF Inr] show ?thesis by simp
  qed
qed

lemma parse_columns_one_group:
  "fst (parse_columns fs location cs st) = Inr st' \<Longrightarrow>
   \<forall>d \<in> set (ps_dates st). length (dd_time_groups d) = 1 \<Longrightarrow>
   \<forall>d \<in> set (ps_dates st'). length (dd_time_groups d) = 1"
proof (induction cs arbitrary: st)
  case Nil
  then show ?case by simp
next
  case (Cons c cs)
  show ?case
  proof (cases "fst (parse_column fs location c st)")
    case (Inl e)
    with Cons.prems show ?thesis by (simp add: fst_bind_o_Inl)
  next
    case (Inr st1)
    with Cons.prems have run: "fst (parse_columns fs location cs st1) = Inr st'"
      by (simp add: fst_bind_o_Inr)
    from parse_column_step [OF Inr] Cons.prems(2)
    have "\<forall>d \<in> set (ps_dates st1). length (dd_time_groups d) = 1" by auto
    from Cons.IH [OF run this] show ?thesis .
  qed
qed

lemma carried_group_Some: "carried_group fs cs (Some g) \<noteq> None"
  by (induction cs arbitrary: g) auto

lemma carried_group_None:
  "(carried_group fs cs None = None) =
     (\<forall>c \<in> set cs. column_date fs c = None \<or> ce_groups c = [])"
proof (induction cs)
  case Nil
  show ?case by simp
next
  case (Cons c cs)
  show ?case
  proof (cases "column_date fs c \<noteq> None \<and> ce_groups c \<noteq> []")
    case True
    have "carried_group fs (c # cs) None =
                 carried_group fs cs (Some (group_of (last (ce_groups c))))"
      by (simp only: carried_group.simps if_P [OF True])
    then have "carried_group fs (c # cs) None \<noteq> None"
      by (simp only: carried_group_Some not_False_eq_True)
    with True show ?thesis
      by (metis list.set_intros(1))
  next
    case False
    have "carried_group fs (c # cs) None = carried_group fs cs None"
      by (simp only: carried_group.simps if_not_P [OF False])
    with False Cons.IH show ?thesis
      by (metis set_ConsD list.set_intros(2))
  qed
qed

lemma carried_group_origin:
  "carried_group fs cs gd = Some g \<Longrightarrow>
   gd = Some g
   \<or> (\<exists>b \<in> set cs. column_date fs b \<noteq> None \<and> ce_groups b \<noteq> []
          \<and> g = group_of (last (ce_groups b)))"
proof (induction cs arbitrary: gd)
  case Nil
  then show ?case by simp
next
  case (Cons c cs)
  show ?case
  proof (cases "column_date fs c \<noteq> None \<and> ce_groups c \<noteq> []")
    case True
    have "carried_group fs (c # cs) gd =
            carried_group fs cs (Some (group_of (last (ce_groups c))))"
      by (simp only: carried_group.simps if_P [OF True])
    with Cons.prems Cons.IH [of "Some (group_of (last (ce_groups c)))"] True
    show ?thesis by (metis list.set_intros(1) list.set_intros(2) option.inject)
  next
    case False
    have "carried_group fs (c # cs) gd = carried_group fs cs gd"
      by (simp only: carried_group.simps if_not_P [OF False])
    with Cons.prems Cons.IH [of gd] show ?thesis
      by (metis list.set_intros(2))
  qed
qed

lemma parse_date_time_group_fst:
  "fst (parse_date_time_group fs location page) =
     (case fst (parse_columns fs location (dom_columns page)
                  \<lparr>ps_dates = [], ps_group_data = None\<rparr>) of
        Inl e \<Rightarrow> Inl e
      | Inr st \<Rightarrow> Inr (ps_dates st))"
  by (cases "fst (parse_columns fs location (dom_columns page)
                   \<lparr>ps_dates = [], ps_group_data = None\<rparr>)")
     (simp_all add: parse_date_time_group_def fst_bind_o_Inl fst_bind_o_Inr)


subsection \<open>Worked pages\<close>

lemma label_apr10: "search_label ''<p>Thursday</p><p>Apr 10, 2025</p>'' = Some (''Thursday'', ''Apr 10, 2025'')"
  by code_simp
lemma label_apr11: "search_label ''<p>Friday</p><p>Apr 11, 2025</p>'' = Some (''Friday'', ''Apr 11, 2025'')"
  by code_simp
lemma bdY_apr10: "strptime_bdY ''Apr 10, 2025'' = Some (2025, 4, 10)"
  by code_simp
lemma bdY_apr11: "strptime_bdY ''Apr 11, 2025'' = Some (2025, 4, 11)"
  by code_simp
lemma ymd_apr10: "strftime_ymd (2025, 4, 10) = ''2025-04-10''"
  by code_simp
lemma ymd_apr11: "strftime_ymd (2025, 4, 11) = ''2025-04-11''"
  by code_simp
lemma alert_apr10: "is_alert_date files_window ''2025-04-10'' = (True, [])"
  by code_simp
lemma alert_apr11: "is_alert_date files_window ''2025-04-11'' = (True, [])"
  by code_simp
lemma column_date_apr10:
  "column_date files_window column_apr10_two_groups = Some (''Thursday'', ''Apr 10, 2025'')"
  by (simp add: column_date_def column_apr10_two_groups_def label_apr10 bdY_apr10 ymd_apr10 alert_apr10
        del: search_label.simps)
lemma column_date_apr11:
  "column_date files_window column_apr11_no_groups = Some (''Friday'', ''Apr 11, 2025'')"
  by (simp add: column_date_def column_apr11_no_groups_def label_apr11 bdY_apr11 ymd_apr11 alert_apr11
        del: search_label.simps)

subsection \<open>The time groups of a date\<close>

text \<open>
  C3 does not hold of the code: line 134 appends \<open>group_data\<close> once, after the loop over
  the groups, so that only the last group of a column is kept. The column of the page below
  has two groups, the date returned has one, the afternoon one.
\<close>

theorem parse_date_time_group_keeps_only_last_group:
  "length (ce_groups column_apr10_two_groups) = 2
   \<and> fst (parse_date_time_group files_window ''Boston''
           \<lparr>dom_buttons = [], dom_columns = [column_apr10_two_groups]\<rparr>) =
     Inr [\<lparr>dd_day_name = ''Thursday'', dd_full_date = ''Apr 10, 2025'',
           dd_time_groups =
             [\<lparr>gd_title = ''Afternoon'', gd_available_count = ''2'',
               gd_times =
                 [\<lparr>td_display = ''1:00 PM'', td_datetime = Some ''04/10/2025 01:00:00 PM''\<rparr>,
                  \<lparr>td_display = ''2:30 PM'', td_datetime = Some ''04/10/2025 02:30:00 PM''\<rparr>]\<rparr>]\<rparr>]"
proof -
  have "fst (parse_column files_window ''Boston'' column_apr10_two_groups
               \<lparr>ps_dates = [], ps_group_data = None\<rparr>) =
        Inr \<lparr>ps_dates =
               [\<lparr>dd_day_name = ''Thursday'', dd_full_date = ''Apr 10, 2025'',
                 dd_time_groups = [group_of (last (ce_groups column_apr10_two_groups))]\<rparr>],
             ps_group_data = Some (group_of (last (ce_groups column_apr10_two_groups)))\<rparr>"
    using parse_column_in_window [OF column_date_apr10]
    by (simp add: column_apr10_two_groups_def)
  then show ?thesis
    by (simp add: parse_date_time_group_fst fst_bind_o_Inr)
       (simp add: column_apr10_two_groups_def group_of_def)
qed

text \<open>
  C9. Let a column be read as a date of the window and have no time group, and let the
  columns before it be processed without an exception. If none of those columns is a date
  of the window with a group, \<open>parse_date_time_group\<close> raises \<open>UnboundLocalError\<close> (the
  exception leaves the function: the handler is for \<open>ValueError\<close>). Otherwise the date is
  returned with one time group, carried over from an earlier column of the window that has
  groups: the last group of the last such column. No date that the function returns has an empty list of time groups:
  each has exactly one.
\<close>

theorem column_without_groups_raises_or_borrows:
  assumes "column_date fs c = Some (day_name, full_date)"
    and "ce_groups c = []"
    and "fst (parse_columns fs location before \<lparr>ps_dates = [], ps_group_data = None\<rparr>) = Inr st"
  shows "(carried_group fs before None = None \<longrightarrow>
            fst (parse_date_time_group fs location
                   \<lparr>dom_buttons = buttons, dom_columns = before @ c # rest\<rparr>) =
            Inl UnboundLocalError)
       \<and> (\<forall>g. carried_group fs before None = Some g \<longrightarrow>
            fst (parse_date_time_group fs location
                   \<lparr>dom_buttons = buttons, dom_columns = before @ [c]\<rparr>) =
            Inr (ps_dates st @
                   [\<lparr>dd_day_name = day_name, dd_full_date = full_date, dd_time_groups = [g]\<rparr>]))
       \<and> (carried_group fs before None = None) =
            (\<forall>b \<in> set before. column_date fs b = None \<or> ce_groups b = [])
       \<and> (\<forall>g. carried_group fs before None = Some g \<longrightarrow>
            (\<exists>b \<in> set before. column_date fs b \<noteq> None \<and> ce_groups b \<noteq> []
               \<and> g = group_of (last (ce_groups b))))
       \<and> (\<forall>ds. fst (parse_date_time_group fs location
                      \<lparr>dom_buttons = buttons, dom_columns = before @ c # rest\<rparr>) = Inr ds \<longrightarrow>
              (\<forall>d \<in> set ds. length (dd_time_groups d) = 1))"
proof -
  let ?init = "\<lparr>ps_dates = [], ps_group_data = None\<rparr>"
  have gd: "ps_group_data st = carried_group fs before None"
    using parse_columns_group_data [OF assms(3)] by simp
  have col: "fst (parse_column fs location c st) =
      (case ps_group_data st of
         None \<Rightarrow> Inl UnboundLocalError
       | Some g \<Rightarrow>
           Inr \<lparr>ps_dates = ps_dates st @
                   [\<lparr>dd_day_name = day_name, dd_full_date = full_date, dd_time_groups = [g]\<rparr>],
                ps_group_data = Some g\<rparr>)"
    using parse_column_in_window [OF assms(1), of location st] assms(2) by simp
  have split: "fst (parse_columns fs location (before @ ys) ?init) =
               fst (parse_columns fs location ys st)" for ys
    by (rule parse_columns_append_Inr [OF assms(3)])
  have raise: "fst (parse_date_time_group fs location
                      \<lparr>dom_buttons = buttons, dom_columns = before @ c # rest\<rparr>) =
               Inl UnboundLocalError"
    if "carried_group fs before None = None"
    using that gd col by (simp add: parse_date_time_group_fst split fst_bind_o_Inl)
  have borrow: "fst (parse_date_time_group fs location
                       \<lparr>dom_buttons = buttons, dom_columns = before @ [c]\<rparr>) =
      Inr (ps_dates st @
             [\<lparr>dd_day_name = day_name, dd_full_date = full_date, dd_time_groups = [g]\<rparr>])"
    if "carried_group fs before None = Some g" for g
    using that gd col by (simp add: parse_date_time_group_fst split fst_bind_o_Inr)
  have one: "\<forall>d \<in> set ds. length (dd_time_groups d) = 1"
    if "fst (parse_date_time_group fs location
               \<lparr>dom_buttons = buttons, dom_columns = before @ c # rest\<rparr>) = Inr ds" for ds
  proof -
    from that obtain st' where
      "fst (parse_columns fs location (before @ c # rest) ?init) = Inr st'" "ds = ps_dates st'"
      by (auto simp: parse_date_time_group_fst split: sum.splits)
    with parse_columns_one_group [of fs location "before @ c # rest" ?init st']
    show ?thesis by simp
  qed
  have origin: "\<exists>b \<in> set before. column_date fs b \<noteq> None \<and> ce_groups b \<noteq> []
                  \<and> g = group_of (last (ce_groups b))"
    if "carried_group fs before None = Some g" for g
    using carried_group_origin [OF that] by simp
  from raise borrow one origin carried_group_None [of fs before] show ?thesis by blast
qed

theorem column_without_groups_raises_or_borrows_witness:
  "column_date files_window column_apr11_no_groups = Some (''Friday'', ''Apr 11, 2025'')
   \<and> ce_groups column_apr11_no_groups = []
   \<and> fst (parse_date_time_group files_window ''Boston''
           \<lparr>dom_buttons = [], dom_columns = [column_apr11_no_groups]\<rparr>) = Inl UnboundLocalError
   \<and> carried_group files_window [column_apr10_two_groups] None =
       Some (group_of (last (ce_groups column_apr10_two_groups)))
   \<and> fst (parse_date_time_group files_window ''Boston''
           \<lparr>dom_buttons = [],
            dom_columns = [column_apr10_two_groups, column_apr11_no_groups]\<rparr>) =
     Inr [\<lparr>dd_day_name = ''Thursday'', dd_full_date = ''Apr 10, 2025'',
           dd_time_groups = [group_of (last (ce_groups column_apr10_two_groups))]\<rparr>,
          \<lparr>dd_day_name = ''Friday'', dd_full_date = ''Apr 11, 2025'',
           dd_time_groups = [group_of (last (ce_groups column_apr10_two_groups))]\<rparr>]"
proof -
  let ?init = "\<lparr>ps_dates = [], ps_group_data = None\<rparr>"
  let ?g = "group_of (last (ce_groups column_apr10_two_groups))"
  have e: "ce_groups column_apr11_no_groups = []"
    by (simp add: column_apr11_no_groups_def)
  have b0: "fst (parse_columns files_window ''Boston'' [] ?init) = Inr ?init"
    by simp
  have b1: "fst (parse_columns files_window ''Boston'' [column_apr10_two_groups] ?init) =
      Inr \<lparr>ps_dates = [\<lparr>dd_day_name = ''Thursday'', dd_full_date = ''Apr 10, 2025'',
                          dd_time_groups = [?g]\<rparr>],
           ps_group_data = Some ?g\<rparr>"
    using parse_column_in_window [OF column_date_apr10, of "''Boston''" ?init]
    by (simp add: fst_bind_o_Inr column_apr10_two_groups_def)
  have c1: "carried_group files_window [column_apr10_two_groups] None = Some ?g"
    by (simp add: column_date_apr10) (simp add: column_apr10_two_groups_def)
  note first = column_without_groups_raises_or_borrows
                 [OF column_date_apr11 e b0, of "[]" "[]", THEN conjunct1]
  note second = column_without_groups_raises_or_borrows
                  [OF column_date_apr11 e b1, of "[]" "[]", THEN conjunct2, THEN conjunct1]
  from first have r1: "fst (parse_date_time_group files_window ''Boston''
           \<lparr>dom_buttons = [], dom_columns = [column_apr11_no_groups]\<rparr>) = Inl UnboundLocalError"
    by simp
  from second c1 have r2: "fst (parse_date_time_group files_window ''Boston''
           \<lparr>dom_buttons = [],
            dom_columns = [column_apr10_two_groups, column_apr11_no_groups]\<rparr>) =
     Inr [\<lparr>dd_day_name = ''Thursday'', dd_full_date = ''Apr 10, 2025'',
           dd_time_groups = [?g]\<rparr>,
          \<lparr>dd_day_name = ''Friday'', dd_full_date = ''Apr 11, 2025'',
           dd_time_groups = [?g]\<rparr>]"
    by simp
  from column_date_apr11 e r1 c1 r2 show ?thesis by (intro conjI)
qed


subsection \<open>Dictionaries\<close>

lemma map_of_dict_set: "map_of (dict_set k v d) = (map_of d)(k \<mapsto> v)"
  by (induction d) (auto simp: fun_eq_iff)

lemma keys_dict_set: "fst ` set (dict_set k v d) = insert k (fst ` set d)"
  by (simp add: dom_map_of_conv_image_fst [symmetric] map_of_dict_set)

lemma distinct_dict_set: "distinct (map fst d) \<Longrightarrow> distinct (map fst (dict_set k v d))"
  by (induction d) (auto simp: keys_dict_set)

subsection \<open>The loops of \<open>transform_data\<close>\<close>

lemma transform_times_typed:
  "list_all (\<lambda>t. td_datetime t \<noteq> None) ts \<Longrightarrow>
   fst (transform_times ts acc) = Inr (acc @ List.map_filter slot_time ts)"
proof (induction ts arbitrary: acc)
  case Nil
  show ?case by simp
next
  case (Cons t ts)
  from Cons.prems obtain s where s: "td_datetime t = Some s" by auto
  from Cons.prems have rest: "list_all (\<lambda>t. td_datetime t \<noteq> None) ts" by simp
  show ?case
    using Cons.IH [OF rest]
    by (cases "strptime_hhmm s") (simp_all add: s slot_time_def)
qed

lemma transform_groups_typed:
  "list_all (\<lambda>g. list_all (\<lambda>t. td_datetime t \<noteq> None) (gd_times g)) gs \<Longrightarrow>
   fst (transform_groups gs acc) = Inr (acc @ concat (map group_times gs))"
proof (induction gs arbitrary: acc)
  case Nil
  show ?case by simp
next
  case (Cons g gs)
  from Cons.prems have g: "list_all (\<lambda>t. td_datetime t \<noteq> None) (gd_times g)"
    and rest: "list_all (\<lambda>g. list_all (\<lambda>t. td_datetime t \<noteq> None) (gd_times g)) gs"
    by simp_all
  show ?case
    using Cons.IH [OF rest]
    by (simp add: fst_bind_o_Inr [OF transform_times_typed [OF g]] group_times_def)
qed

text \<open>The times of a date after the date records \<open>dds\<close>, when the dictionary was \<open>d\<close>
  before them.\<close>

lemma transform_dates_typed:
  assumes "list_all date_typed dds" and "distinct (map fst d)"
  shows "\<exists>d'. fst (transform_dates dds d) = Inr d' \<and> distinct (map fst d')
           \<and> (\<forall>iso. map_of d' iso =
                 (if contributions dds iso = [] then map_of d iso
                  else Some ((case map_of d iso of None \<Rightarrow> [] | Some l \<Rightarrow> l)
                             @ concat (map date_times (contributions dds iso)))))"
  using assms
proof (induction dds arbitrary: d)
  case Nil
  show ?case using Nil.prems by (simp add: contributions_def)
next
  case (Cons dd dds)
  from Cons.prems have typed: "date_typed dd" and rest: "list_all date_typed dds"
    by simp_all
  show ?case
  proof (cases "strptime_bdY (dd_full_date dd)")
    case None
    then have skip: "contributions (dd # dds) iso = contributions dds iso" for iso
      by (simp add: contributions_def iso_date_of_def)
    have step: "fst (transform_dates (dd # dds) d) = fst (transform_dates dds d)"
      by (simp add: None)
    show ?thesis
      unfolding step skip by (rule Cons.IH [OF rest Cons.prems(2)])
  next
    case (Some date_obj)
    define iso0 where "iso0 = strftime_ymd date_obj"
    define cur where "cur = (case map_of d iso0 of None \<Rightarrow> [] | Some l \<Rightarrow> l)"
    define d1 where "d1 = dict_set iso0 (cur @ date_times dd) d"
    have iso: "iso_date_of dd = Some iso0"
      by (simp add: iso_date_of_def Some iso0_def)
    have groups: "fst (transform_groups (dd_time_groups dd) cur) = Inr (cur @ date_times dd)"
      using typed by (simp add: date_typed_def transform_groups_typed date_times_def)
    have step: "fst (transform_dates (dd # dds) d) = fst (transform_dates dds d1)"
      by (simp add: Some Let_def iso0_def [symmetric] cur_def [symmetric]
            fst_bind_o_Inr [OF groups] d1_def)
    have dist: "distinct (map fst d1)"
      unfolding d1_def by (rule distinct_dict_set [OF Cons.prems(2)])
    from Cons.IH [OF rest dist] obtain d' where d':
      "fst (transform_dates dds d1) = Inr d'" "distinct (map fst d')"
      "\<And>iso. map_of d' iso =
                 (if contributions dds iso = [] then map_of d1 iso
                  else Some ((case map_of d1 iso of None \<Rightarrow> [] | Some l \<Rightarrow> l)
                             @ concat (map date_times (contributions dds iso))))"
      by blast
    have lookup: "map_of d1 iso = (if iso = iso0 then Some (cur @ date_times dd) else map_of d iso)"
      for iso
      by (simp add: d1_def map_of_dict_set)
    have contrib: "contributions (dd # dds) iso =
                     (if iso = iso0 then dd # contributions dds iso else contributions dds iso)"
      for iso
      using iso by (auto simp: contributions_def)
    have "map_of d' iso =
            (if contributions (dd # dds) iso = [] then map_of d iso
             else Some ((case map_of d iso of None \<Rightarrow> [] | Some l \<Rightarrow> l)
                        @ concat (map date_times (contributions (dd # dds) iso))))" for iso
      by (simp add: d'(3) lookup contrib cur_def)
    with d'(1,2) step show ?thesis by auto
  qed
qed

lemma transform_pages_typed:
  assumes "list_all date_typed (concat (map pd_dates pages))" and "distinct (map fst d)"
  shows "\<exists>d'. fst (transform_pages pages d) = Inr d' \<and> distinct (map fst d')
           \<and> (\<forall>iso. map_of d' iso =
                 (if contributions (concat (map pd_dates pages)) iso = [] then map_of d iso
                  else Some ((case map_of d iso of None \<Rightarrow> [] | Some l \<Rightarrow> l)
                             @ concat (map date_times
                                 (contributions (concat (map pd_dates pages)) iso)))))"
  using assms
proof (induction pages arbitrary: d)
  case Nil
  show ?case using Nil.prems by (simp add: contributions_def)
next
  case (Cons page pages)
  from Cons.prems have p: "list_all date_typed (pd_dates page)"
    and rest: "list_all date_typed (concat (map pd_dates pages))"
    by simp_all
  from transform_dates_typed [OF p Cons.prems(2)] obtain d1 where d1:
    "fst (transform_dates (pd_dates page) d) = Inr d1" "distinct (map fst d1)"
    "\<And>iso. map_of d1 iso =
       (if contributions (pd_dates page) iso = [] then map_of d iso
        else Some ((case map_of d iso of None \<Rightarrow> [] | Some l \<Rightarrow> l)
                   @ concat (map date_times (contributions (pd_dates page) iso))))"
    by blast
  from Cons.IH [OF rest d1(2)] obtain d' where d':
    "fst (transform_pages pages d1) = Inr d'" "distinct (map fst d')"
    "\<And>iso. map_of d' iso =
       (if contributions (concat (map pd_dates pages)) iso = [] then map_of d1 iso
        else Some ((case map_of d1 iso of None \<Rightarrow> [] | Some l \<Rightarrow> l)
                   @ concat (map date_times (contributions (concat (map pd_dates pages)) iso))))"
    by blast
  have step: "fst (transform_pages (page # pages) d) = Inr d'"
    by (simp add: fst_bind_o_Inr [OF d1(1)] d'(1))
  have app: "contributions (concat (map pd_dates (page # pages))) iso =
               contributions (pd_dates page) iso @ contributions (concat (map pd_dates pages)) iso"
    for iso
    by (simp add: contributions_def)
  have "map_of d' iso =
          (if contributions (concat (map pd_dates (page # pages))) iso = [] then map_of d iso
           else Some ((case map_of d iso of None \<Rightarrow> [] | Some l \<Rightarrow> l)
                      @ concat (map date_times
                          (contributions (concat (map pd_dates (page # pages))) iso))))" for iso
    unfolding app by (simp add: d'(3) d1(3))
  with step d'(2) show ?case by blast
qed

lemma transform_locations_keeps:
  "fst (transform_locations locations transformed) = Inr t' \<Longrightarrow>
   k \<notin> fst ` set locations \<Longrightarrow> map_of t' k = map_of transformed k"
proof (induction locations arbitrary: transformed)
  case Nil
  then show ?case by simp
next
  case (Cons l locations)
  obtain location location_data where l: "l = (location, location_data)" by (cases l)
  show ?case
  proof (cases "fst (transform_pages (ld_pages location_data) [])")
    case (Inl e)
    with Cons.prems(1) show ?thesis by (simp add: l fst_bind_o_Inl)
  next
    case (Inr d)
    with Cons.prems(1)
    have "fst (transform_locations locations (dict_set location d transformed)) = Inr t'"
      by (simp add: l fst_bind_o_Inr)
    from Cons.IH [OF this] Cons.prems(2) show ?thesis
      by (simp add: l map_of_dict_set)
  qed
qed

lemma transform_locations_typed:
  assumes "locations_typed locations" and "distinct (map fst locations)"
    and "\<forall>l \<in> set locations. fst l \<notin> fst ` set transformed"
  shows "\<exists>t'. fst (transform_locations locations transformed) = Inr t'
           \<and> (\<forall>l \<in> set locations.
                 \<exists>d. map_of t' (fst l) = Some d
                    \<and> fst (transform_pages (ld_pages (snd l)) []) = Inr d)
           \<and> fst ` set t' = fst ` set transformed \<union> fst ` set locations"
  using assms
proof (induction locations arbitrary: transformed)
  case Nil
  show ?case by simp
next
  case (Cons l locations)
  obtain location location_data where l: "l = (location, location_data)" by (cases l)
  from Cons.prems(1) have typed: "list_all date_typed (concat (map pd_dates (ld_pages location_data)))"
    and rest: "locations_typed locations"
    by (simp_all add: locations_typed_def location_dates_def l)
  from transform_pages_typed [OF typed, of "[]"] obtain d where
    d: "fst (transform_pages (ld_pages location_data) []) = Inr d"
    by auto
  define t1 where "t1 = dict_set location d transformed"
  from Cons.prems(2) have dist: "distinct (map fst locations)"
    and fresh: "location \<notin> fst ` set locations"
    by (simp_all add: l)
  have away: "\<forall>l \<in> set locations. fst l \<notin> fst ` set t1"
    using Cons.prems(3) fresh by (auto simp: t1_def keys_dict_set)
  from Cons.IH [OF rest dist away] obtain t' where t':
    "fst (transform_locations locations t1) = Inr t'"
    "\<forall>l \<in> set locations.
        \<exists>d. map_of t' (fst l) = Some d \<and> fst (transform_pages (ld_pages (snd l)) []) = Inr d"
    "fst ` set t' = fst ` set t1 \<union> fst ` set locations"
    by blast
  have step: "fst (transform_locations (l # locations) transformed) = Inr t'"
    by (simp add: l fst_bind_o_Inr [OF d] t1_def [symmetric] t'(1))
  have kept: "map_of t' location = Some d"
    using transform_locations_keeps [OF t'(1) fresh] by (simp add: t1_def map_of_dict_set)
  from step t'(2,3) kept d show ?case
    by (auto simp: l t1_def keys_dict_set)
qed


subsection \<open>The times of a location and date\<close>

lemma hhmm_0900: "strptime_hhmm ''04/10/2025 09:00:00 AM'' = Some ''09:00''"
  by code_simp

lemma hhmm_1030: "strptime_hhmm ''04/10/2025 10:30:00 AM'' = Some ''10:30''"
  by code_simp

lemma hhmm_1100: "strptime_hhmm ''04/10/2025 11:00:00 AM'' = Some ''11:00''"
  by code_simp

lemma date_times_first: "date_times date_apr10_first = [''09:00'', ''10:30'']"
  by (simp add: date_times_def date_apr10_first_def group_times_def slot_time_def slot_def
        List.map_filter_simps hhmm_0900 hhmm_1030)

lemma date_times_second: "date_times date_apr10_second = [''10:30'', ''09:00'', ''11:00'']"
  by (simp add: date_times_def date_apr10_second_def group_times_def slot_time_def slot_def
        List.map_filter_simps hhmm_0900 hhmm_1030 hhmm_1100)

lemma iso_date_first: "iso_date_of date_apr10_first = Some ''2025-04-10''"
  by (simp add: iso_date_of_def date_apr10_first_def bdY_apr10 ymd_apr10)

lemma iso_date_second: "iso_date_of date_apr10_second = Some ''2025-04-10''"
  by (simp add: iso_date_of_def date_apr10_second_def bdY_apr10 ymd_apr10)

lemma boston_two_pages_typed: "locations_typed [(''Boston'', boston_two_pages)]"
  by (simp add: locations_typed_def location_dates_def boston_two_pages_def date_typed_def
        date_apr10_first_def date_apr10_second_def slot_def)

lemma transform_boston_two_pages:
  "fst (transform_data [(''Boston'', boston_two_pages)]) =
     Inr [(''Boston'', [(''2025-04-10'', [''09:00'', ''10:30'', ''10:30'', ''09:00'', ''11:00''])])]"
  by (simp add: transform_data_def boston_two_pages_def date_apr10_first_def
        date_apr10_second_def slot_def bdY_apr10 ymd_apr10 hhmm_0900 hhmm_1030 hhmm_1100
        bind_o_def returns_def after_def)

text \<open>
  C1, as the specification states it, fails on its own example: two pages that give
  09:00, 10:30 and 10:30, 09:00, 11:00 for the same location and date are normalised to the
  five times in the order met, not to the three sorted times.
\<close>

theorem transform_data_keeps_duplicates_counterexample:
  "date_times date_apr10_first = [''09:00'', ''10:30'']
   \<and> date_times date_apr10_second = [''10:30'', ''09:00'', ''11:00'']
   \<and> fst (transform_data [(''Boston'', boston_two_pages)]) =
       Inr [(''Boston'', [(''2025-04-10'', [''09:00'', ''10:30'', ''10:30'', ''09:00'', ''11:00''])])]
   \<and> fst (transform_data [(''Boston'', boston_two_pages)]) \<noteq>
       Inr [(''Boston'', [(''2025-04-10'', [''09:00'', ''10:30'', ''11:00''])])]"
  by (simp add: date_times_first date_times_second transform_boston_two_pages)

text \<open>
  C1, amended. Let the raw records be the items of a dictionary (no location twice) in
  which every slot has a \<open>datetime\<close> text. Then \<open>transform_data\<close> returns, and for every
  location its dictionary of dates has exactly the dates that some date record of the
  location is read as, each once, and the list of a date is the concatenation, in the order
  of pages, date records, time groups and slots, of the \<open>HH:MM\<close> times of the slots whose
  \<open>datetime\<close> can be read. Every time contributed is there, as often as it was
  contributed and in the order met: the list is neither sorted nor free of duplicates.
\<close>

theorem transform_data_concatenates_times:
  assumes "locations_typed locations"
    and "distinct (map fst locations)"
    and "(location, location_data) \<in> set locations"
  shows "\<exists>transformed d.
           fst (transform_data locations) = Inr transformed
         \<and> fst ` set transformed = fst ` set locations
         \<and> map_of transformed location = Some d
         \<and> distinct (map fst d)
         \<and> (\<forall>iso_date.
               map_of d iso_date =
                 (if contributions (location_dates location_data) iso_date = [] then None
                  else Some (concat (map date_times
                               (contributions (location_dates location_data) iso_date)))))"
proof -
  from transform_locations_typed [OF assms(1,2), of "[]"] obtain t' where t':
    "fst (transform_locations locations []) = Inr t'"
    "\<forall>l \<in> set locations.
        \<exists>d. map_of t' (fst l) = Some d \<and> fst (transform_pages (ld_pages (snd l)) []) = Inr d"
    "fst ` set t' = fst ` set locations"
    by auto
  from t'(2) assms(3) obtain d where d:
    "map_of t' location = Some d" "fst (transform_pages (ld_pages location_data) []) = Inr d"
    by force
  from assms(1,3) have "list_all date_typed (concat (map pd_dates (ld_pages location_data)))"
    by (auto simp: locations_typed_def location_dates_def list_all_iff)
  from transform_pages_typed [OF this, of "[]"] d(2)
  have "distinct (map fst d)"
    and "\<forall>iso_date.
           map_of d iso_date =
             (if contributions (location_dates location_data) iso_date = [] then None
              else Some (concat (map date_times
                           (contributions (location_dates location_data) iso_date))))"
    by (auto simp: location_dates_def)
  with t'(1,3) d(1) show ?thesis
    unfolding transform_data_def by blast
qed

theorem transform_data_concatenates_times_witness:
  "locations_typed [(''Boston'', boston_two_pages)]
   \<and> distinct (map fst [(''Boston'', boston_two_pages)])
   \<and> (''Boston'', boston_two_pages) \<in> set [(''Boston'', boston_two_pages)]
   \<and> (\<exists>transformed d.
         fst (transform_data [(''Boston'', boston_two_pages)]) = Inr transformed
       \<and> map_of transformed ''Boston'' = Some d
       \<and> map_of d ''2025-04-10'' = Some [''09:00'', ''10:30'', ''10:30'', ''09:00'', ''11:00''])"
proof -
  have h2: "distinct (map fst [(''Boston'', boston_two_pages)])"
    by simp
  have h3: "(''Boston'', boston_two_pages) \<in> set [(''Boston'', boston_two_pages)]"
    by simp
  have c: "contributions (location_dates boston_two_pages) ''2025-04-10'' =
             [date_apr10_first, date_apr10_second]"
    by (simp add: contributions_def location_dates_def boston_two_pages_def iso_date_first
          iso_date_second)
  from transform_data_concatenates_times [OF boston_two_pages_typed h2 h3]
  obtain transformed d where
    "fst (transform_data [(''Boston'', boston_two_pages)]) = Inr transformed"
    "map_of transformed ''Boston'' = Some d"
    "\<forall>iso_date.
       map_of d iso_date =
         (if contributions (location_dates boston_two_pages) iso_date = [] then None
          else Some (concat (map date_times
                       (contributions (location_dates boston_two_pages) iso_date))))"
    by blast
  then have "fst (transform_data [(''Boston'', boston_two_pages)]) = Inr transformed
       \<and> map_of transformed ''Boston'' = Some d
       \<and> map_of d ''2025-04-10'' = Some [''09:00'', ''10:30'', ''10:30'', ''09:00'', ''11:00'']"
    by (simp add: c date_times_first date_times_second)
  then have "\<exists>transformed d.
         fst (transform_data [(''Boston'', boston_two_pages)]) = Inr transformed
       \<and> map_of transformed ''Boston'' = Some d
       \<and> map_of d ''2025-04-10'' = Some [''09:00'', ''10:30'', ''10:30'', ''09:00'', ''11:00'']"
    by blast
  with boston_two_pages_typed h2 h3 show ?thesis by (intro conjI)
qed


subsection \<open>The loop over the locations\<close>

lemma show_nat_1 [simp]: "show_nat 1 = ''1''" "show_nat (Suc 0) = ''1''"
  by (simp_all add: show_nat.simps digit_char_def)

lemma show_nat_time: "show_nat 1743000000 = ''1743000000''"
  by (simp add: show_nat.simps digit_char_def)



lemma visit_town_raises:
  assumes "town_raises blacklist t"
  shows "snd (visit_town fs blacklist url i n t locations) =
           town_body fs url i n t
           @ [Print (''Error processing location '' @ show_nat (i + 1) @ '': ''), Goto url]
           @ (if town_recover t then [] else [Print ''Could not recover to main page''])"
    and "snd (fst (visit_town fs blacklist url i n t locations)) = town_recover t"
  using assms
  by (auto simp: town_raises_def visit_town_def town_body_def recover_def Let_def
      split: option.splits prod.splits)

lemma visit_towns_stop:
  assumes "snd (fst (visit_town fs blacklist url i n t locations)) = False"
  shows "visit_towns fs blacklist url i n (t # rest) locations =
           (fst (fst (visit_town fs blacklist url i n t locations)),
            snd (visit_town fs blacklist url i n t locations))"
  using assms by (auto split: prod.splits)

lemma visit_towns_append_stop:
  assumes "\<And>i locations. snd (fst (visit_town fs blacklist url i n t locations)) = False"
  shows "visit_towns fs blacklist url i n (before @ t # rest) locations =
         visit_towns fs blacklist url i n (before @ [t]) locations"
proof (induction before arbitrary: i locations)
  case Nil
  show ?case using assms [of i locations] by (auto split: prod.splits)
next
  case (Cons b before)
  show ?case
    using Cons.IH by (auto split: prod.splits)
qed

lemma test_list_buttons_finish:
  assumes "rmv_url_txt (w_files w) = Some text" and "w_site w = Some towns"
    and "w_blacklist_arg w = None"
    and "visit_towns (w_files w) (load_list (blacklist_txt (w_files w))) (strip text) 0
           (length towns) towns [] = (locations, evs)"
    and "transform_data locations = (Inr transformed, tevs)"
  shows "fst (test_list_buttons w) = 0"
    and "\<exists>pre. snd (test_list_buttons w) =
           pre @ [Dump (''data/'' @ show_nat (w_time w) @ ''.json'') transformed]
               @ run_alert w (''data/'' @ show_nat (w_time w) @ ''.json'')"
  using assms
  by (auto simp: test_list_buttons_def finish_run_def write_and_alert_def Let_def)


subsection \<open>A recovery that fails\<close>

lemma strip_url: "strip ''https://rmv.example/'' = ''https://rmv.example/''"
  by code_simp

text \<open>
  C6, as the specification states it, fails in its second half. On a site with one
  location whose processing raises and whose recovery raises too, the run prints that it
  could not recover, and then goes on as after any loop: it writes the snapshot (empty
  here), runs \<open>alert.py\<close> on it, and returns with exit status 0.
\<close>

theorem failed_recovery_run_goes_on_counterexample:
  "test_list_buttons world_lost =
     (0, [Print ''Loaded URL: https://rmv.example/'',
          Goto ''https://rmv.example/'',
          Print ''Error processing location 1: '',
          Goto ''https://rmv.example/'',
          Print ''Could not recover to main page'',
          Dump ''data/1743000000.json'' [],
          Print ''Executing: alert.py data/1743000000.json'',
          Run [''python'', ''alert.py'', ''data/1743000000.json'']])"
  by (simp add: test_list_buttons_def world_lost_def files_window_def files_default_def
        strip_url visit_town_def recover_def town_lost_def show_nat_1 show_nat_time
        finish_run_def write_and_alert_def load_list_def transform_data_def returns_def
        run_alert_def Let_def)

text \<open>
  C6, amended. For a location whose processing raises, the handler prints the diagnostic
  and navigates once to the selection page; the loop goes on exactly when that navigation
  returns. When it raises, the handler prints a second diagnostic and the loop ends: the
  locations after this one are not visited. The run itself is not aborted: without
  \<open>--blacklist\<close>, and when \<open>transform_data\<close> returns, it writes the snapshot of the
  locations collected so far, runs \<open>alert.py\<close> on it, and ends with exit status 0.
\<close>

theorem failed_recovery_ends_loop_not_run:
  assumes "town_raises blacklist t"
  shows "snd (visit_town fs blacklist url i n t locations) =
           town_body fs url i n t
           @ [Print (''Error processing location '' @ show_nat (i + 1) @ '': ''), Goto url]
           @ (if town_recover t then [] else [Print ''Could not recover to main page''])
       \<and> snd (fst (visit_town fs blacklist url i n t locations)) = town_recover t
       \<and> (\<not> town_recover t \<longrightarrow>
            visit_towns fs blacklist url i n (before @ t # rest) locations =
            visit_towns fs blacklist url i n (before @ [t]) locations)
       \<and> (\<not> town_recover t
            \<and> blacklist = load_list (blacklist_txt (w_files w))
            \<and> rmv_url_txt (w_files w) = Some text
            \<and> w_site w = Some (before @ t # rest)
            \<and> w_blacklist_arg w = None
            \<and> visit_towns (w_files w) blacklist (strip text) 0 (length (before @ t # rest))
                  (before @ [t]) [] = (collected, evs)
            \<and> transform_data collected = (Inr transformed, tevs)
          \<longrightarrow> fst (test_list_buttons w) = 0
            \<and> (\<exists>pre. snd (test_list_buttons w) =
                   pre @ [Dump (''data/'' @ show_nat (w_time w) @ ''.json'') transformed]
                       @ run_alert w (''data/'' @ show_nat (w_time w) @ ''.json'')))"
proof -
  note handler = visit_town_raises [OF assms]
  have stop: "visit_towns fs' blacklist url' i' n' (before @ t # rest) locations' =
              visit_towns fs' blacklist url' i' n' (before @ [t]) locations'"
    if "\<not> town_recover t" for fs' url' i' n' locations'
    using that by (intro visit_towns_append_stop) (simp add: visit_town_raises(2) [OF assms])
  have run: "fst (test_list_buttons w) = 0
      \<and> (\<exists>pre. snd (test_list_buttons w) =
             pre @ [Dump (''data/'' @ show_nat (w_time w) @ ''.json'') transformed]
                 @ run_alert w (''data/'' @ show_nat (w_time w) @ ''.json''))"
    if "\<not> town_recover t" "blacklist = load_list (blacklist_txt (w_files w))"
       "rmv_url_txt (w_files w) = Some text" "w_site w = Some (before @ t # rest)"
       "w_blacklist_arg w = None"
       "visit_towns (w_files w) blacklist (strip text) 0 (length (before @ t # rest))
          (before @ [t]) [] = (collected, evs)"
       "transform_data collected = (Inr transformed, tevs)"
  proof -
    have "visit_towns (w_files w) (load_list (blacklist_txt (w_files w))) (strip text) 0
            (length (before @ t # rest)) (before @ t # rest) [] = (collected, evs)"
      using stop [OF that(1)] that(2,6) by simp
    from test_list_buttons_finish [OF that(3,4,5) this that(7)] show ?thesis by simp
  qed
  from handler stop run show ?thesis by blast
qed

theorem failed_recovery_ends_loop_not_run_witness:
  "town_raises {} town_lost
   \<and> \<not> town_recover town_lost
   \<and> snd (visit_town files_window {} ''https://rmv.example/'' 0 1 town_lost []) =
       [Print ''Error processing location 1: '', Goto ''https://rmv.example/'',
        Print ''Could not recover to main page'']
   \<and> visit_towns files_window {} ''https://rmv.example/'' 0 2 [town_lost, town_lost] [] =
       visit_towns files_window {} ''https://rmv.example/'' 0 2 [town_lost] []
   \<and> fst (test_list_buttons world_lost) = 0"
proof -
  have r: "town_raises {} town_lost"
    by (simp add: town_raises_def town_lost_def)
  have n: "\<not> town_recover town_lost"
    by (simp add: town_lost_def)
  note main = failed_recovery_ends_loop_not_run [OF r]
  have e: "snd (visit_town files_window {} ''https://rmv.example/'' 0 1 town_lost []) =
       [Print ''Error processing location 1: '', Goto ''https://rmv.example/'',
        Print ''Could not recover to main page'']"
    using main [of files_window "''https://rmv.example/''" 0 1 "[]", THEN conjunct1]
    by (simp add: town_body_def town_lost_def)
  have s: "visit_towns files_window {} ''https://rmv.example/'' 0 2 [town_lost, town_lost] [] =
       visit_towns files_window {} ''https://rmv.example/'' 0 2 [town_lost] []"
    using main [of files_window "''https://rmv.example/''" 0 2 "[]" "[]" "[town_lost]",
               THEN conjunct2, THEN conjunct2, THEN conjunct1] n
    by simp
  have b: "{} = load_list (blacklist_txt (w_files world_lost))"
    by (simp add: world_lost_def files_window_def files_default_def load_list_def)
  have u: "rmv_url_txt (w_files world_lost) = Some ''https://rmv.example/''"
    by (simp add: world_lost_def files_window_def files_default_def)
  have w: "w_site world_lost = Some ([] @ town_lost # [])"
    by (simp add: world_lost_def)
  have a: "w_blacklist_arg world_lost = None"
    by (simp add: world_lost_def)
  have v: "visit_towns (w_files world_lost) {} (strip ''https://rmv.example/'') 0
             (length ([] @ town_lost # [])) ([] @ [town_lost]) [] =
           ([], [Print ''Error processing location 1: '', Goto ''https://rmv.example/'',
                 Print ''Could not recover to main page''])"
    by (simp add: strip_url visit_town_def recover_def town_lost_def)
  have t: "transform_data [] = (Inr [], [])"
    by (simp add: transform_data_def returns_def)
  have x: "fst (test_list_buttons world_lost) = 0"
    using main [of _ _ _ _ _ "[]" "[]" world_lost "''https://rmv.example/''",
               THEN conjunct2, THEN conjunct2, THEN conjunct2] n b u w a v t
    by blast
  from r n e s x show ?thesis by (intro conjI)
qed


subsection \<open>The list files\<close>

text \<open>Only \<open>load_list\<close> reads the list files: the window check does not depend on them.\<close>

lemma load_time_window_blacklist: "load_time_window (fs\<lparr>blacklist_txt := x\<rparr>) = load_time_window fs"
  by (simp add: load_time_window_def)

lemma is_alert_date_blacklist: "is_alert_date (fs\<lparr>blacklist_txt := x\<rparr>) d = is_alert_date fs d"
  by (simp add: is_alert_date_def load_time_window_blacklist cong: option.case_cong)

lemma check_dates_blacklist:
  "check_dates (fs\<lparr>blacklist_txt := x\<rparr>) url location dates st =
   check_dates fs url location dates st"
  by (induction dates arbitrary: st) (auto simp: is_alert_date_blacklist)

lemma check_locations_blacklist:
  "check_locations (fs\<lparr>blacklist_txt := x\<rparr>) blacklist url data st =
   check_locations fs blacklist url data st"
  by (induction data arbitrary: st) (auto simp: check_dates_blacklist)

lemma parse_column_blacklist:
  "parse_column (fs\<lparr>blacklist_txt := x\<rparr>) location c st = parse_column fs location c st"
  by (simp add: parse_column_def is_alert_date_blacklist
      cong: option.case_cong prod.case_cong)

lemma parse_columns_blacklist:
  "parse_columns (fs\<lparr>blacklist_txt := x\<rparr>) location cs st = parse_columns fs location cs st"
proof (induction cs arbitrary: st)
  case Nil
  show ?case by simp
next
  case (Cons c cs)
  have "parse_columns (fs\<lparr>blacklist_txt := x\<rparr>) location cs = parse_columns fs location cs"
    using Cons.IH by (simp add: fun_eq_iff)
  then show ?case by (simp add: parse_column_blacklist)
qed

lemma parse_date_time_group_blacklist:
  "parse_date_time_group (fs\<lparr>blacklist_txt := x\<rparr>) location page =
   parse_date_time_group fs location page"
  by (simp add: parse_date_time_group_def parse_columns_blacklist)

lemma get_page_attempts_blacklist:
  "get_page_attempts (fs\<lparr>blacklist_txt := x\<rparr>) location page k buttons =
   get_page_attempts fs location page k buttons"
  by (induction k arbitrary: buttons)
     (simp_all add: parse_date_time_group_blacklist cong: prod.case_cong sum.case_cong if_cong)

lemma collect_pages_blacklist:
  "collect_pages (fs\<lparr>blacklist_txt := x\<rparr>) location pages = collect_pages fs location pages"
  by (induction pages) (simp_all add: get_page_data_def get_page_attempts_blacklist)

lemma visit_town_blacklist:
  "visit_town (fs\<lparr>blacklist_txt := x\<rparr>) blacklist url i n t locations =
   visit_town fs blacklist url i n t locations"
  by (simp add: visit_town_def collect_pages_blacklist cong: option.case_cong if_cong)

lemma visit_towns_blacklist:
  "visit_towns (fs\<lparr>blacklist_txt := x\<rparr>) blacklist url i n towns locations =
   visit_towns fs blacklist url i n towns locations"
  by (induction towns arbitrary: i locations)
     (simp_all add: visit_town_blacklist cong: prod.case_cong if_cong)

lemma run_alert_files: "run_alert (w\<lparr>w_files := f\<rparr>) output_file = run_alert w output_file"
  by (simp add: run_alert_def)

lemma write_and_alert_files:
  "write_and_alert (w\<lparr>w_files := f\<rparr>) blacklist whitelist locations =
   write_and_alert w blacklist whitelist locations"
  by (simp add: write_and_alert_def run_alert_files cong: prod.case_cong sum.case_cong)

lemma finish_run_files:
  "finish_run (w\<lparr>w_files := f\<rparr>) blacklist whitelist locations =
   finish_run w blacklist whitelist locations"
  by (simp add: finish_run_def write_and_alert_files cong: option.case_cong if_cong)

lemma test_list_buttons_blacklist:
  "test_list_buttons (w\<lparr>w_files := (w_files w)\<lparr>blacklist_txt := x\<rparr>\<rparr>) =
     (case rmv_url_txt (w_files w) of
        None \<Rightarrow> (1, [Print ''Error loading URL: ''])
      | Some text \<Rightarrow>
          (case w_site w of
             None \<Rightarrow> (1, [Print (''Loaded URL: '' @ strip text), Goto (strip text)])
           | Some towns \<Rightarrow>
               (case visit_towns (w_files w) (load_list x) (strip text) 0 (length towns) towns [] of
                  (locations, evs) \<Rightarrow>
                    (case finish_run w (load_list x) (load_list (whitelist_txt (w_files w)))
                            locations of
                       (status, evs') \<Rightarrow>
                         (status,
                          [Print (''Loaded URL: '' @ strip text), Goto (strip text)]
                            @ evs @ evs')))))"
  by (simp add: test_list_buttons_def Let_def visit_towns_blacklist finish_run_files
      cong: option.case_cong prod.case_cong)

lemma strip_boston_plain: "strip ''Boston'' = ''Boston''"
  by code_simp

lemma strip_blank: "strip ''  '' = []"
  by code_simp

lemma strip_worcester: "strip '' Worcester  \<newline>'' = ''Worcester''"
  by code_simp

text \<open>What one iteration of the loop does, for any set of excluded locations.\<close>

lemma visit_town_events:
  "snd (visit_town fs blacklist url i n t locations) =
     (case town_text t of
        None \<Rightarrow> []
      | Some label \<Rightarrow>
          if strip label \<in> blacklist
          then [Print ('' Blacklist location '' @ show_nat (i + 1) @ ''/'' @ show_nat n
                       @ '': '' @ strip label)]
          else town_body fs url i n t)
     @ (if town_raises blacklist t
        then [Print (''Error processing location '' @ show_nat (i + 1) @ '': ''), Goto url]
             @ (if town_recover t then [] else [Print ''Could not recover to main page''])
        else [])"
  by (auto simp: visit_town_def town_body_def town_raises_def recover_def Let_def
      split: option.splits prod.splits)

lemma visit_town_goes_on:
  "snd (fst (visit_town fs blacklist url i n t locations)) =
     (town_raises blacklist t \<longrightarrow> town_recover t)"
  by (auto simp: visit_town_def town_raises_def recover_def Let_def
      split: option.splits prod.splits)

lemma visit_town_click:
  assumes "town_text t = Some label" and "strip label \<notin> blacklist"
  shows "Click (strip label) \<in> set (snd (visit_town fs blacklist url i n t locations))"
  using assms by (simp add: visit_town_events town_body_def)

lemma visit_towns_click:
  assumes "t \<in> set (reached blacklist towns)" and "town_text t = Some label"
    and "strip label \<notin> blacklist"
  shows "Click (strip label) \<in> set (snd (visit_towns fs blacklist url i n towns locations))"
  using assms(1)
proof (induction towns arbitrary: i locations)
  case Nil
  then show ?case by simp
next
  case (Cons t0 rest)
  obtain locations' go_on evs
    where v: "visit_town fs blacklist url i n t0 locations = ((locations', go_on), evs)"
    by (metis prod.collapse)
  from v visit_town_goes_on [of fs blacklist url i n t0 locations]
  have go_on: "go_on = (town_raises blacklist t0 \<longrightarrow> town_recover t0)"
    by simp
  show ?case
  proof (cases "t = t0")
    case True
    with visit_town_click [OF assms(2,3), of fs url i n locations] v
    have "Click (strip label) \<in> set evs" by simp
    with v show ?thesis by (auto split: prod.splits)
  next
    case False
    with Cons.prems go_on have "go_on" and "t \<in> set (reached blacklist rest)"
      by (auto split: if_splits)
    with Cons.IH [of "Suc i" locations'] v show ?thesis
      by (auto split: prod.splits)
  qed
qed

lemma test_list_buttons_click:
  assumes "rmv_url_txt (w_files w) = Some u" and "w_site w = Some towns"
    and "t \<in> set (reached (load_list (blacklist_txt (w_files w))) towns)"
    and "town_text t = Some label"
    and "strip label \<notin> load_list (blacklist_txt (w_files w))"
  shows "Click (strip label) \<in> set (snd (test_list_buttons w))"
proof -
  from visit_towns_click [OF assms(3,4,5)]
  have "Click (strip label)
          \<in> set (snd (visit_towns (w_files w) (load_list (blacklist_txt (w_files w))) (strip u) 0
                         (length towns) towns []))" .
  with assms(1,2) show ?thesis
    by (auto simp: test_list_buttons_def Let_def split: prod.splits)
qed

lemma show_nat_2: "show_nat 2 = ''2''"
  by (simp add: show_nat.simps digit_char_def)

text \<open>
  C10. \<open>load_list\<close> returns the empty set for a file that does not exist, and else the
  set of the lines of the file, stripped, without those that are empty once stripped. So a
  run of \<open>alert.py\<close> or of \<open>browse.py\<close> without \<open>blacklist.txt\<close> is the run with an empty
  \<open>blacklist.txt\<close>, and in it no location is left out. In \<open>alert.py\<close>, the alert records
  of \<open>analyze_appointments\<close> are those of every location of the snapshot, for each of its
  dates in the window. In \<open>browse.py\<close>, an iteration of the loop never takes the branch of
  an excluded location: it does what \<open>town_body\<close> says (for a button whose text can be read,
  the line of progress, the click and the pages), then the handler if the processing raised;
  so every location that the loop reaches and whose button can be read is clicked, in
  \<open>visit_towns\<close> and in the run of \<open>test_list_buttons\<close>.
\<close>

theorem load_list_missing_file_is_empty_set:
  "load_list None = {}
   \<and> load_list (Some lines) = {strip line |line. line \<in> set lines \<and> strip line \<noteq> []}
   \<and> analyze_appointments (fs\<lparr>blacklist_txt := None\<rparr>) firefox data_file =
       analyze_appointments (fs\<lparr>blacklist_txt := Some []\<rparr>) firefox data_file
   \<and> test_list_buttons (w\<lparr>w_files := (w_files w)\<lparr>blacklist_txt := None\<rparr>\<rparr>) =
       test_list_buttons (w\<lparr>w_files := (w_files w)\<lparr>blacklist_txt := Some []\<rparr>\<rparr>)
   \<and> (blacklist_txt fs = None \<and> load_url fs = Some url \<longrightarrow>
        run_alerts (analyze_appointments fs firefox (Some data)) =
          concat (map (\<lambda>(location, dates).
                         map (mk_alert url location) (filter (in_window fs) dates)) data))
   \<and> (blacklist_txt fs = None \<longrightarrow>
        snd (visit_town fs (load_list (blacklist_txt fs)) url i n t locations) =
          town_body fs url i n t
          @ (if town_raises {} t
             then [Print (''Error processing location '' @ show_nat (i + 1) @ '': ''), Goto url]
                  @ (if town_recover t then [] else [Print ''Could not recover to main page''])
             else []))
   \<and> (blacklist_txt fs = None \<and> t \<in> set (reached {} towns) \<and> town_text t = Some label \<longrightarrow>
        Click (strip label)
          \<in> set (snd (visit_towns fs (load_list (blacklist_txt fs)) url i n towns locations)))
   \<and> (blacklist_txt (w_files w) = None \<and> rmv_url_txt (w_files w) = Some u
        \<and> w_site w = Some towns \<and> t \<in> set (reached {} towns) \<and> town_text t = Some label \<longrightarrow>
        Click (strip label) \<in> set (snd (test_list_buttons w)))"
proof -
  have lines: "load_list (Some lines) = {strip line |line. line \<in> set lines \<and> strip line \<noteq> []}"
    by (auto simp: load_list_def)
  have alert: "analyze_appointments (fs\<lparr>blacklist_txt := None\<rparr>) firefox data_file =
               analyze_appointments (fs\<lparr>blacklist_txt := Some []\<rparr>) firefox data_file"
    by (simp add: analyze_appointments_def load_url_def load_list_def check_locations_blacklist
          cong: option.case_cong)
  have browse: "test_list_buttons (w\<lparr>w_files := (w_files w)\<lparr>blacklist_txt := None\<rparr>\<rparr>) =
                test_list_buttons (w\<lparr>w_files := (w_files w)\<lparr>blacklist_txt := Some []\<rparr>\<rparr>)"
  proof -
    have "load_list None = load_list (Some [])"
      by (simp add: load_list_def)
    then show ?thesis
      by (simp only: test_list_buttons_blacklist)
  qed
  have records: "run_alerts (analyze_appointments fs firefox (Some data)) =
          concat (map (\<lambda>(location, dates).
                         map (mk_alert url location) (filter (in_window fs) dates)) data)"
    if "blacklist_txt fs = None" "load_url fs = Some url"
    using that by (simp add: analyze_appointments_run expected_alerts_def load_list_def)
  have iteration: "snd (visit_town fs (load_list (blacklist_txt fs)) url i n t locations) =
          town_body fs url i n t
          @ (if town_raises {} t
             then [Print (''Error processing location '' @ show_nat (i + 1) @ '': ''), Goto url]
                  @ (if town_recover t then [] else [Print ''Could not recover to main page''])
             else [])"
    if "blacklist_txt fs = None"
    using that
    by (simp add: visit_town_events load_list_def town_body_def split: option.splits)
  have loop: "Click (strip label)
          \<in> set (snd (visit_towns fs (load_list (blacklist_txt fs)) url i n towns locations))"
    if "blacklist_txt fs = None" "t \<in> set (reached {} towns)" "town_text t = Some label"
    using that visit_towns_click [of t "{}" towns label fs url i n locations]
    by (simp add: load_list_def)
  have run: "Click (strip label) \<in> set (snd (test_list_buttons w))"
    if "blacklist_txt (w_files w) = None" "rmv_url_txt (w_files w) = Some u"
      "w_site w = Some towns" "t \<in> set (reached {} towns)" "town_text t = Some label"
    using that test_list_buttons_click [of w u towns t label]
    by (simp add: load_list_def)
  have none: "load_list None = {}"
    by (simp add: load_list_def)
  from none lines alert browse records iteration loop run show ?thesis
    by blast
qed

theorem load_list_missing_file_is_empty_set_witness:
  "load_list (Some [''Boston'', ''  '', '' Worcester  \<newline>'']) = {''Boston'', ''Worcester''}
   \<and> blacklist_txt files_window = None
   \<and> load_url files_window = Some ''https://rmv.example/''
   \<and> map alert_location
         (run_alerts (analyze_appointments files_window firefox_ok (Some snapshot_two_locations))) =
       [''Boston'', ''Boston'', ''Worcester'']
   \<and> snd (visit_town files_window (load_list (blacklist_txt files_window))
            ''https://rmv.example/'' 0 2 town_boston []) =
       [Print ''Processing location 1/2: Boston'', Click ''Boston'', Goto ''https://rmv.example/'']
   \<and> town_worcester \<in> set (reached {} [town_boston, town_worcester])
   \<and> town_text town_worcester = Some '' Worcester  \<newline>''
   \<and> Click ''Worcester''
       \<in> set (snd (visit_towns files_window (load_list (blacklist_txt files_window))
                      ''https://rmv.example/'' 0 2 [town_boston, town_worcester] []))
   \<and> rmv_url_txt (w_files world_two_towns) = Some ''https://rmv.example/''
   \<and> w_site world_two_towns = Some [town_boston, town_worcester]
   \<and> Click ''Worcester'' \<in> set (snd (test_list_buttons world_two_towns))"
proof -
  note main = load_list_missing_file_is_empty_set
  have "{strip line |line. line \<in> set [''Boston'', ''  '', '' Worcester  \<newline>'']
           \<and> strip line \<noteq> []} =
        set (map strip (filter (\<lambda>line. strip line \<noteq> [])
                          [''Boston'', ''  '', '' Worcester  \<newline>'']))"
    by auto
  also have "\<dots> = {''Boston'', ''Worcester''}"
    by (simp add: strip_boston_plain strip_blank strip_worcester)
  finally have "{strip line |line. line \<in> set [''Boston'', ''  '', '' Worcester  \<newline>'']
           \<and> strip line \<noteq> []} = {''Boston'', ''Worcester''}" .
  with main [where lines = "[''Boston'', ''  '', '' Worcester  \<newline>'']",
              THEN conjunct2, THEN conjunct1]
  have lines: "load_list (Some [''Boston'', ''  '', '' Worcester  \<newline>'']) =
                 {''Boston'', ''Worcester''}"
    by simp
  have missing: "blacklist_txt files_window = None"
    by (simp add: files_window_def files_default_def)
  have wfile: "blacklist_txt (w_files world_two_towns) = None"
    by (simp add: world_two_towns_def missing)
  have url: "rmv_url_txt (w_files world_two_towns) = Some ''https://rmv.example/''"
    by (simp add: world_two_towns_def files_window_def files_default_def)
  have site: "w_site world_two_towns = Some [town_boston, town_worcester]"
    by (simp add: world_two_towns_def)
  have readable: "town_text town_worcester = Some '' Worcester  \<newline>''"
    by (simp add: town_worcester_def)
  have reach: "town_worcester \<in> set (reached {} [town_boston, town_worcester])"
    by (simp add: town_raises_def town_boston_def)
  have "concat (map (\<lambda>(location, dates).
                      map (mk_alert ''https://rmv.example/'' location)
                        (filter (in_window files_window) dates)) snapshot_two_locations) =
        expected_alerts files_window {} ''https://rmv.example/'' snapshot_two_locations"
    by (simp add: expected_alerts_def)
  with main [where fs = files_window and url = "''https://rmv.example/''" and firefox = firefox_ok
              and data = snapshot_two_locations,
            THEN conjunct2, THEN conjunct2, THEN conjunct2, THEN conjunct2, THEN conjunct1]
    missing load_url_window
  have records: "map alert_location
         (run_alerts (analyze_appointments files_window firefox_ok (Some snapshot_two_locations))) =
       [''Boston'', ''Boston'', ''Worcester'']"
    by (simp add: alerts_two_locations)
  from main [where fs = files_window and url = "''https://rmv.example/''" and i = 0 and n = 2
              and t = town_boston and locations = "[]",
            THEN conjunct2, THEN conjunct2, THEN conjunct2, THEN conjunct2, THEN conjunct2,
            THEN conjunct1] missing
  have iteration: "snd (visit_town files_window (load_list (blacklist_txt files_window))
            ''https://rmv.example/'' 0 2 town_boston []) =
       [Print ''Processing location 1/2: Boston'', Click ''Boston'', Goto ''https://rmv.example/'']"
    by (simp add: town_body_def town_raises_def town_boston_def strip_boston_plain show_nat_2)
  from main [where fs = files_window and url = "''https://rmv.example/''" and i = 0 and n = 2
              and locations = "[]" and t = town_worcester
              and towns = "[town_boston, town_worcester]"
              and label = "'' Worcester  \<newline>''",
            THEN conjunct2, THEN conjunct2, THEN conjunct2, THEN conjunct2, THEN conjunct2,
            THEN conjunct2, THEN conjunct1] missing reach readable
  have "Click (strip '' Worcester  \<newline>'')
       \<in> set (snd (visit_towns files_window (load_list (blacklist_txt files_window))
                      ''https://rmv.example/'' 0 2 [town_boston, town_worcester] []))"
    by blast
  then have loop: "Click ''Worcester''
       \<in> set (snd (visit_towns files_window (load_list (blacklist_txt files_window))
                      ''https://rmv.example/'' 0 2 [town_boston, town_worcester] []))"
    by (simp only: strip_worcester)
  from main [where w = world_two_towns and t = town_worcester
               and towns = "[town_boston, town_worcester]"
               and label = "'' Worcester  \<newline>''" and u = "''https://rmv.example/''",
            THEN conjunct2, THEN conjunct2, THEN conjunct2, THEN conjunct2, THEN conjunct2,
            THEN conjunct2, THEN conjunct2] wfile url site reach readable
  have "Click (strip '' Worcester  \<newline>'') \<in> set (snd (test_list_buttons world_two_towns))"
    by blast
  then have run: "Click ''Worcester'' \<in> set (snd (test_list_buttons world_two_towns))"
    by (simp only: strip_worcester)
  from lines missing load_url_window records iteration reach readable loop url site run
  show ?thesis
    by (intro conjI)
qed

end
